theory Spec2Isabelle
  imports Main "HOL-Library.Word"
begin

unbundle bit_operations_syntax

section \<open>RTEgdbData: a GDB remote-serial-protocol client and its data transfer\<close>

text \<open>
  The theory embeds the GDB client library (gdb_lib.cpp) and the transfer sequence of
  RTEgdbData.cpp. Values of the C type \<open>unsigned\<close> that are stored in globals or
  structures are 32-bit words; byte counts handed to the memory functions are natural
  numbers (always obtained from a 32-bit value), with the 32-bit wrap-around written out
  where the source computes with them. A \<open>char\<close> is a byte.
\<close>

type_synonym byte = "8 word"
type_synonym u32 = "32 word"

subsection \<open>Constants of gdb\_defs.h, gdb\_lib.h and RTEgdbData.h\<close>

definition GDB_OK :: int where "GDB_OK = 0"
definition GDB_ERROR :: int where "GDB_ERROR = 1"

definition DEFAULT_MESSAGE_SIZE :: u32 where "DEFAULT_MESSAGE_SIZE = 4096"
definition TCP_BUFF_LENGTH :: nat where "TCP_BUFF_LENGTH = 65535"

definition MIN_BUFFER_SIZE :: u32 where "MIN_BUFFER_SIZE = 64 + 16"
definition MAX_BUFFER_SIZE :: u32 where "MAX_BUFFER_SIZE = 2100000"

text \<open>The enumeration \<open>error_codes\<close>; \<open>last_gdb_error\<close> is an \<open>unsigned\<close> that
  holds one of them, 0, or the number a server sent in an \<open>Exx\<close> reply.\<close>

definition ERR_RCV_TIMEOUT :: u32 where "ERR_RCV_TIMEOUT = 1"
definition ERR_SEND_TIMEOUT :: u32 where "ERR_SEND_TIMEOUT = 2"
definition ERR_SOCKET :: u32 where "ERR_SOCKET = 3"
definition ERR_BAD_MSG_FORMAT :: u32 where "ERR_BAD_MSG_FORMAT = 4"
definition ERR_BAD_MSG_CHECKSUM :: u32 where "ERR_BAD_MSG_CHECKSUM = 5"
definition ERR_RUN_LENGTH_ENCODING_NOT_IMPLEMENTED :: u32 where
  "ERR_RUN_LENGTH_ENCODING_NOT_IMPLEMENTED = 6"
definition ERR_CONNECTION_CLOSED :: u32 where "ERR_CONNECTION_CLOSED = 7"
definition ERR_BAD_INPUT_DATA :: u32 where "ERR_BAD_INPUT_DATA = 8"
definition ERR_MSG_NOT_SENT_COMPLETELY :: u32 where "ERR_MSG_NOT_SENT_COMPLETELY = 9"
definition ERR_BAD_RESPONSE :: u32 where "ERR_BAD_RESPONSE = 10"
definition ERR_GDB_REPORTED_ERROR :: u32 where "ERR_GDB_REPORTED_ERROR = 11"

subsection \<open>C strings and the C library's formatting\<close>

text \<open>A character array is a list of characters; a read past its end yields NUL (the
  arrays of the program are static, hence zero-initialised). \<open>cstr\<close> is the C string that
  starts at the head of an array.\<close>

definition NUL :: char where "NUL = CHR 0x00"

definition buf_at :: "string \<Rightarrow> nat \<Rightarrow> char" where
  "buf_at b i = (if i < length b then b ! i else NUL)"

definition cstr :: "string \<Rightarrow> string" where
  "cstr b = takeWhile (\<lambda>c. c \<noteq> NUL) b"

text \<open>\<open>sprintf_s(buf, ..)\<close> at the head of an array: the text, its terminating NUL,
  and whatever the array held behind it.\<close>

definition store_str :: "string \<Rightarrow> string \<Rightarrow> string" where
  "store_str s b = s @ NUL # drop (Suc (length s)) b"

text \<open>Bytes copied to the head of an array without a terminator (\<open>recv\<close>).\<close>

definition overlay :: "'a list \<Rightarrow> 'a list \<Rightarrow> 'a list" where
  "overlay new old = new @ drop (length new) old"

text \<open>\<open>b[i] = c\<close> on an array whose unwritten tail is NUL.\<close>

definition poke :: "nat \<Rightarrow> char \<Rightarrow> string \<Rightarrow> string" where
  "poke i c b = (if i < length b then b[i := c] else b @ replicate (i - length b) NUL @ [c])"

text \<open>\<open>strncmp(a, b, n) == 0\<close>.\<close>

definition strncmp_eq :: "string \<Rightarrow> string \<Rightarrow> nat \<Rightarrow> bool" where
  "strncmp_eq a b n = (take n (cstr a) = take n (cstr b))"

text \<open>\<open>strstr\<close> on C strings already cut at their NUL: the tail of the haystack from
  the first occurrence of the needle on.\<close>

fun strstr :: "string \<Rightarrow> string \<Rightarrow> string option" where
  "strstr [] needle = (if needle = [] then Some [] else None)"
| "strstr (h # hs) needle =
     (if take (length needle) (h # hs) = needle then Some (h # hs) else strstr hs needle)"

text \<open>The conversions \<open>%x\<close> and \<open>%X\<close> of \<open>printf\<close> with a minimum field width and
  zero padding (\<open>%08x\<close>, \<open>%02x\<close>, \<open>%04X\<close>, \<open>%02X\<close>).\<close>

definition lower_digits :: string where "lower_digits = ''0123456789abcdef''"
definition upper_digits :: string where "upper_digits = ''0123456789ABCDEF''"

fun hex_of :: "string \<Rightarrow> nat \<Rightarrow> string" where
  "hex_of ds n = (if n < 16 then [ds ! n] else hex_of ds (n div 16) @ [ds ! (n mod 16)])"

declare hex_of.simps [simp del]

definition printf_hex :: "string \<Rightarrow> nat \<Rightarrow> nat \<Rightarrow> string" where
  "printf_hex ds width n = (let s = hex_of ds n in replicate (width - length s) CHR ''0'' @ s)"

text \<open>The conversions \<open>%x\<close> and \<open>%u\<close> of \<open>sscanf_s\<close> into an \<open>unsigned\<close>: white space
  is skipped, a sign is accepted, \<open>%x\<close> accepts a \<open>0x\<close> prefix, then the longest run of
  digits is read. The C library accumulates the number in 64 bits, where it saturates at
  \<open>2^64 - 1\<close>, and stores the low 32 bits. \<open>None\<close> is a conversion that did not take
  place (the call does not return the expected count).\<close>

definition isspace :: "char \<Rightarrow> bool" where
  "isspace c = (c = CHR '' '' \<or> (9 \<le> (of_char c :: nat) \<and> (of_char c :: nat) \<le> 13))"

definition digit_value :: "char \<Rightarrow> nat option" where
  "digit_value c =
     (let v = (of_char c :: nat) in
      if 48 \<le> v \<and> v \<le> 57 then Some (v - 48)
      else if 65 \<le> v \<and> v \<le> 70 then Some (v - 65 + 10)
      else if 97 \<le> v \<and> v \<le> 102 then Some (v - 97 + 10)
      else None)"

definition is_digit_in :: "nat \<Rightarrow> char \<Rightarrow> bool" where
  "is_digit_in base c = (case digit_value c of None \<Rightarrow> False | Some v \<Rightarrow> v < base)"

definition digits_value :: "nat \<Rightarrow> string \<Rightarrow> nat" where
  "digits_value base ds = foldl (\<lambda>a c. a * base + the (digit_value c)) 0 ds"

definition strip_sign :: "string \<Rightarrow> bool \<times> string" where
  "strip_sign s =
     (case s of
        [] \<Rightarrow> (False, [])
      | c # r \<Rightarrow> if c = CHR ''-'' then (True, r) else if c = CHR ''+'' then (False, r)
                else (False, s))"

definition strip_0x :: "string \<Rightarrow> string" where
  "strip_0x s =
     (case s of
        c0 # cx # d # r \<Rightarrow>
          if c0 = CHR ''0'' \<and> (cx = CHR ''x'' \<or> cx = CHR ''X'') \<and> is_digit_in 16 d
          then d # r else s
      | _ \<Rightarrow> s)"

text \<open>A scan yields the value and the rest of the input.\<close>

definition scan_number :: "nat \<Rightarrow> string \<Rightarrow> (u32 \<times> string) option" where
  "scan_number base s =
     (let s1 = dropWhile isspace s;
          (neg, s2) = strip_sign s1;
          s3 = (if base = 16 then strip_0x s2 else s2);
          ds = takeWhile (is_digit_in base) s3;
          v = (of_nat (min (digits_value base ds) (2 ^ 64 - 1)) :: u32)
      in if ds = [] then None
         else Some (if neg then - v else v, dropWhile (is_digit_in base) s3))"

definition sscanf_x :: "string \<Rightarrow> u32 option" where
  "sscanf_x s = map_option fst (scan_number 16 s)"

definition sscanf_u :: "string \<Rightarrow> u32 option" where
  "sscanf_u s = map_option fst (scan_number 10 s)"

text \<open>\<open>sscanf_s(s, "%x %u", ..) == 2\<close>.\<close>

definition sscanf_x_u :: "string \<Rightarrow> (u32 \<times> u32) option" where
  "sscanf_x_u s =
     (case scan_number 16 s of
        None \<Rightarrow> None
      | Some (a, r) \<Rightarrow> (case scan_number 10 r of None \<Rightarrow> None | Some (b, _) \<Rightarrow> Some (a, b)))"

subsection \<open>get\_hex\_digit\<close>

text \<open>The argument is a pointer into a character array: \<open>None\<close> is the null pointer,
  \<open>Some s\<close> the characters from the pointer on.\<close>

fun hex_loop :: "nat \<Rightarrow> int \<Rightarrow> string \<Rightarrow> int" where
  "hex_loop 0 dec_val ptr = dec_val"
| "hex_loop (Suc k) dec_val ptr =
     (let dec_val = dec_val * 16; c = (of_char (buf_at ptr 0) :: int) in
      if of_char CHR ''0'' \<le> c \<and> c \<le> of_char CHR ''9''
      then hex_loop k (dec_val + (c - of_char CHR ''0'')) (tl ptr)
      else if of_char CHR ''A'' \<le> c \<and> c \<le> of_char CHR ''F''
      then hex_loop k (dec_val + (c - of_char CHR ''A'' + 10)) (tl ptr)
      else if of_char CHR ''a'' \<le> c \<and> c \<le> of_char CHR ''f''
      then hex_loop k (dec_val + (c - of_char CHR ''a'' + 10)) (tl ptr)
      else - 1)"

definition get_hex_digit :: "string option \<Rightarrow> int" where
  "get_hex_digit ptr = (case ptr of None \<Rightarrow> - 1 | Some s \<Rightarrow> hex_loop 2 0 s)"

text \<open>The characters \<open>get_hex_digit\<close> accepts, and the value it gives each.\<close>

definition is_hex :: "char \<Rightarrow> bool" where
  "is_hex c =
     ((of_char CHR ''0'' \<le> (of_char c :: int) \<and> (of_char c :: int) \<le> of_char CHR ''9'')
      \<or> (of_char CHR ''A'' \<le> (of_char c :: int) \<and> (of_char c :: int) \<le> of_char CHR ''F'')
      \<or> (of_char CHR ''a'' \<le> (of_char c :: int) \<and> (of_char c :: int) \<le> of_char CHR ''f''))"

definition hex_char_value :: "char \<Rightarrow> int" where
  "hex_char_value c =
     (if of_char c \<le> (of_char CHR ''9'' :: int) then of_char c - of_char CHR ''0''
      else if of_char c \<le> (of_char CHR ''F'' :: int) then of_char c - of_char CHR ''A'' + 10
      else of_char c - of_char CHR ''a'' + 10)"

subsection \<open>Data of cmd\_line.h and rtedbg.h\<close>

text \<open>The command line parameters the transfer reads. (The names of the log file, of the
  filter-name file and of the drivers, the IP address and the priority and debug switches
  only reach the operating system and the logger, which are not part of the model.)\<close>

record parameters_t =
  start_address :: u32
  size_p :: u32
  filter_p :: u32
  set_filter :: bool
  delay :: u32
  decode_file :: "string option"
  bin_file_name :: string
  start_cmd_file :: "string option"
  clear_buffer :: bool
  persistent_connection :: bool
  detach :: bool
  max_message_size :: u32

record rtedbg_header_t =
  last_index :: u32
  filter_h :: u32
  rte_cfg :: u32
  timestamp_frequency :: u32
  filter_copy :: u32
  buffer_size :: u32

definition sizeof_rtedbg_header :: nat where "sizeof_rtedbg_header = 24"

text \<open>The host is little-endian: a 32-bit value and the four bytes it occupies.\<close>

definition word_bytes :: "u32 \<Rightarrow> byte list" where
  "word_bytes v = [ucast v, ucast (drop_bit 8 v), ucast (drop_bit 16 v), ucast (drop_bit 24 v)]"

definition bytes_word :: "byte list \<Rightarrow> u32" where
  "bytes_word bs =
     ucast (bs ! 0) OR push_bit 8 (ucast (bs ! 1)) OR push_bit 16 (ucast (bs ! 2))
       OR push_bit 24 (ucast (bs ! 3))"

definition header_bytes :: "rtedbg_header_t \<Rightarrow> byte list" where
  "header_bytes h =
     word_bytes (last_index h) @ word_bytes (filter_h h) @ word_bytes (rte_cfg h)
       @ word_bytes (timestamp_frequency h) @ word_bytes (filter_copy h)
       @ word_bytes (buffer_size h)"

definition bytes_header :: "byte list \<Rightarrow> rtedbg_header_t" where
  "bytes_header bs =
     \<lparr> last_index = bytes_word (take 4 bs),
       filter_h = bytes_word (take 4 (drop 4 bs)),
       rte_cfg = bytes_word (take 4 (drop 8 bs)),
       timestamp_frequency = bytes_word (take 4 (drop 12 bs)),
       filter_copy = bytes_word (take 4 (drop 16 bs)),
       buffer_size = bytes_word (take 4 (drop 20 bs)) \<rparr>"

text \<open>The macros of rtedbg.h that parse \<open>rte_cfg\<close>.\<close>

definition RTE_SINGLE_SHOT_WAS_ACTIVE :: "rtedbg_header_t \<Rightarrow> u32" where
  "RTE_SINGLE_SHOT_WAS_ACTIVE h = drop_bit 0 (rte_cfg h) AND 1"
definition RTE_MSG_FILTERING_ENABLED :: "rtedbg_header_t \<Rightarrow> u32" where
  "RTE_MSG_FILTERING_ENABLED h = drop_bit 1 (rte_cfg h) AND 1"
definition RTE_FILTER_OFF_ENABLED :: "rtedbg_header_t \<Rightarrow> u32" where
  "RTE_FILTER_OFF_ENABLED h = drop_bit 2 (rte_cfg h) AND 1"
definition RTE_SINGLE_SHOT_LOGGING_ENABLED :: "rtedbg_header_t \<Rightarrow> u32" where
  "RTE_SINGLE_SHOT_LOGGING_ENABLED h = drop_bit 3 (rte_cfg h) AND 1"
definition RTE_CFG_RESERVED_BITS :: "rtedbg_header_t \<Rightarrow> u32" where
  "RTE_CFG_RESERVED_BITS h = drop_bit 5 (rte_cfg h) AND 0x07"
definition RTE_CFG_RESERVED2 :: "rtedbg_header_t \<Rightarrow> u32" where
  "RTE_CFG_RESERVED2 h = drop_bit 15 (rte_cfg h) AND 0x01"
definition RTE_HEADER_SIZE :: "rtedbg_header_t \<Rightarrow> u32" where
  "RTE_HEADER_SIZE h = (drop_bit 24 (rte_cfg h) AND 0x7F) * 4"

subsection \<open>The socket, the GDB server behind it, and the process state\<close>

text \<open>
  What the socket will deliver is a queue of events. \<open>Data s\<close> is a run of bytes that
  one \<open>recv\<close> can return (a \<open>recv\<close> with a smaller buffer takes a part of it);
  \<open>Quiet\<close> is a silence that outlasts every timeout of the program, and so is the
  empty queue; \<open>Closed\<close> is the orderly shutdown (\<open>recv\<close> returns 0) and
  \<open>SockErr\<close> a socket error other than a timeout. The clock is not modelled: the
  waiting loops of the source end at the first silence, and \<open>Sleep\<close> has no effect.
\<close>

datatype rx_event = Data string | Quiet | Closed | SockErr

datatype send_status = Sent nat | SendTimedOut | SendFailed

datatype recv_result = Received string | RecvTimedOut | RecvFailed

text \<open>
  The GDB server (and the target behind it) is a state machine of any state type \<open>'s\<close>:
  \<open>on_packet\<close> maps the bytes handed to one \<open>send\<close> and the state to the outcome of
  that \<open>send\<close>, the events it adds to the socket's queue and the next state. The
  acknowledgement \<open>+\<close> is never answered: \<open>on_ack\<close> yields the outcome of its \<open>send\<close>
  and the next state only.
\<close>

record 's gdb_server =
  on_packet :: "string \<Rightarrow> 's \<Rightarrow> send_status \<times> rx_event list \<times> 's"
  on_ack :: "'s \<Rightarrow> send_status \<times> 's"

text \<open>
  The globals of both source files, the socket, and the files. \<open>tx\<close> lists every buffer
  handed to \<open>send\<close>, in order. \<open>cmd_files\<close> holds the text of the command files that
  can be opened; \<open>bin_files\<close> the binary files written; \<open>unwritable\<close> the names
  \<open>fopen_s(.., "wb")\<close> fails on and \<open>disk_free\<close> how many bytes \<open>fwrite\<close> can still
  store; \<open>malloc_ok n\<close> says whether \<open>malloc(n)\<close> succeeds; \<open>connects\<close> whether the
  TCP connection can be made.
\<close>

record 's world =
  srv :: 's
  rx :: "rx_event list"
  tx :: "string list"
  connects :: bool
  cmd_files :: "string \<Rightarrow> string option"
  bin_files :: "string \<Rightarrow> byte list option"
  unwritable :: "string \<Rightarrow> bool"
  disk_free :: nat
  malloc_ok :: "nat \<Rightarrow> bool"
  message_buffer :: string
  last_gdb_error :: u32
  ack_mode_enabled :: bool
  max_memo_read_packet_size :: u32
  max_memo_write_packet_size :: u32
  max_gdb_send_message_size :: u32
  max_gdb_recv_message_size :: u32
  parameters :: parameters_t
  old_msg_filter :: u32
  rtedbg_header :: rtedbg_header_t
  p_rtedbg_structure :: "byte list option"

definition sock_recv :: "nat \<Rightarrow> 's world \<Rightarrow> recv_result \<times> 's world" where
  "sock_recv n w =
     (case rx w of
        [] \<Rightarrow> (RecvTimedOut, w)
      | ev # r \<Rightarrow>
          (case ev of
             Quiet \<Rightarrow> (RecvTimedOut, w\<lparr>rx := r\<rparr>)
           | SockErr \<Rightarrow> (RecvFailed, w\<lparr>rx := r\<rparr>)
           | Closed \<Rightarrow> (Received [], w)
           | Data s \<Rightarrow>
               (Received (take n s),
                w\<lparr>rx := (if n < length s then Data (drop n s) # r else r)\<rparr>)))"

definition sock_send :: "'s gdb_server \<Rightarrow> string \<Rightarrow> 's world \<Rightarrow> send_status \<times> 's world" where
  "sock_send env msg w =
     (if msg = ''+'' then
        (let (st, s') = on_ack env (srv w) in (st, w\<lparr>srv := s', tx := tx w @ [msg]\<rparr>))
      else
        (let (st, evs, s') = on_packet env msg (srv w)
         in (st, w\<lparr>srv := s', rx := rx w @ evs, tx := tx w @ [msg]\<rparr>)))"

fun rx_size :: "rx_event list \<Rightarrow> nat" where
  "rx_size [] = 0"
| "rx_size (Data s # r) = Suc (length s) + rx_size r"
| "rx_size (ev # r) = Suc (rx_size r)"

subsection \<open>gdb\_lib.cpp: sending and receiving\<close>

text \<open>\<open>gdb_send(msg, length)\<close>: \<open>msg\<close> is the \<open>length\<close> characters handed over.\<close>

definition gdb_send :: "'s gdb_server \<Rightarrow> string \<Rightarrow> 's world \<Rightarrow> int \<times> 's world" where
  "gdb_send env msg w =
     (if msg = [] then (GDB_ERROR, w\<lparr>last_gdb_error := ERR_BAD_INPUT_DATA\<rparr>)
      else
        (case sock_send env msg w of
           (SendTimedOut, w1) \<Rightarrow> (GDB_ERROR, w1\<lparr>last_gdb_error := ERR_SEND_TIMEOUT\<rparr>)
         | (SendFailed, w1) \<Rightarrow> (GDB_ERROR, w1\<lparr>last_gdb_error := ERR_SOCKET\<rparr>)
         | (Sent n, w1) \<Rightarrow>
             if n \<noteq> length msg
             then (GDB_ERROR, w1\<lparr>last_gdb_error := ERR_MSG_NOT_SENT_COMPLETELY\<rparr>)
             else (GDB_OK, w1)))"

definition gdb_send_ack :: "'s gdb_server \<Rightarrow> 's world \<Rightarrow> 's world" where
  "gdb_send_ack env w = (if ack_mode_enabled w then snd (gdb_send env ''+'' w) else w)"

text \<open>Bytes written into an array from an offset on.\<close>

definition write_at :: "nat \<Rightarrow> string \<Rightarrow> string \<Rightarrow> string" where
  "write_at i d b = take i (b @ replicate (i - length b) NUL) @ d @ drop (i + length d) b"

lemma sock_recv_size:
  "sock_recv n w = (Received d, w1) \<Longrightarrow> d \<noteq> [] \<Longrightarrow> rx_size (rx w1) < rx_size (rx w)"
  by (auto simp: sock_recv_def split: list.splits rx_event.splits if_splits)

lemma sock_recv_size_le: "sock_recv n w = (r, w1) \<Longrightarrow> rx_size (rx w1) \<le> rx_size (rx w)"
  by (auto simp: sock_recv_def split: list.splits rx_event.splits if_splits)

text \<open>The receive loop of \<open>gdb_get_message\<close>; \<open>data_received\<close> is the static counter
  of the source.\<close>

function gdb_get_loop :: "'s gdb_server \<Rightarrow> nat \<Rightarrow> 's world \<Rightarrow> int \<times> 's world" where
  "gdb_get_loop env data_received w =
     (case sock_recv (TCP_BUFF_LENGTH - data_received) w of
        (Received d, w1) \<Rightarrow>
          if d = [] then (GDB_ERROR, w1\<lparr>last_gdb_error := ERR_CONNECTION_CLOSED\<rparr>)
          else
            (let w2 = w1\<lparr>message_buffer := write_at data_received d (message_buffer w1)\<rparr>;
                 data_received = data_received + length d
             in if data_received \<ge> TCP_BUFF_LENGTH - 1 then (GDB_ERROR, w2)
                else if data_received \<ge> 4
                        \<and> buf_at (message_buffer w2) (data_received - 3) = CHR ''#''
                then (let w3 = gdb_send_ack env w2
                      in (GDB_OK, w3\<lparr>message_buffer := poke data_received NUL (message_buffer w3)\<rparr>))
                else gdb_get_loop env data_received w2)
      | (RecvFailed, w1) \<Rightarrow> (GDB_ERROR, w1\<lparr>last_gdb_error := ERR_SOCKET\<rparr>)
      | (RecvTimedOut, w1) \<Rightarrow>
          (GDB_ERROR, w1\<lparr>message_buffer := poke data_received NUL (message_buffer w1),
                           last_gdb_error := ERR_RCV_TIMEOUT\<rparr>))"
  by pat_completeness auto
termination
  by (relation "measure (\<lambda>(env, n, w). rx_size (rx w))") (auto dest: sock_recv_size [OF sym])

declare gdb_get_loop.simps [simp del]

text \<open>\<open>timeout\<close> selects how long the source waits; see the note on the clock above.\<close>

definition gdb_get_message :: "'s gdb_server \<Rightarrow> nat \<Rightarrow> 's world \<Rightarrow> int \<times> 's world" where
  "gdb_get_message env timeout w =
     gdb_get_loop env 0 (w\<lparr>message_buffer := poke 0 NUL (message_buffer w)\<rparr>)"

function gdb_flush_socket :: "'s world \<Rightarrow> 's world" where
  "gdb_flush_socket w =
     (case sock_recv 256 w of
        (Received d, w1) \<Rightarrow> if d \<noteq> [] then gdb_flush_socket w1 else w1
      | (_, w1) \<Rightarrow> w1)"
  by pat_completeness auto
termination
  by (relation "measure (\<lambda>w. rx_size (rx w))") (auto dest: sock_recv_size [OF sym])

declare gdb_flush_socket.simps [simp del]

function gdb_handle_unexpected_messages :: "'s world \<Rightarrow> 's world" where
  "gdb_handle_unexpected_messages w =
     (case sock_recv TCP_BUFF_LENGTH w of
        (Received d, w1) \<Rightarrow>
          if d \<noteq> []
          then gdb_handle_unexpected_messages (w1\<lparr>message_buffer := overlay d (message_buffer w1)\<rparr>)
          else w1
      | (_, w1) \<Rightarrow> w1)"
  by pat_completeness auto
termination
  by (relation "measure (\<lambda>w. rx_size (rx w))") (auto dest: sock_recv_size [OF sym])

declare gdb_handle_unexpected_messages.simps [simp del]

lemma gdb_flush_socket_size: "rx_size (rx (gdb_flush_socket w)) \<le> rx_size (rx w)"
proof (induction w rule: gdb_flush_socket.induct)
  case (1 w)
  show ?case
  proof (cases "sock_recv 256 w")
    case (Pair r w1)
    then show ?thesis
      using 1 sock_recv_size_le [OF Pair]
      by (subst gdb_flush_socket.simps) (auto split: recv_result.splits)
  qed
qed

function gdb_check_ack :: "'s world \<Rightarrow> 's world" where
  "gdb_check_ack w =
     (case sock_recv 1 (w\<lparr>message_buffer := poke 0 NUL (message_buffer w)\<rparr>) of
        (Received d, w1) \<Rightarrow>
          if d = [] then w1
          else
            (let w2 = w1\<lparr>message_buffer := overlay d (message_buffer w1)\<rparr>
             in if buf_at (message_buffer w2) 0 = CHR ''+'' then w2
                else gdb_check_ack (gdb_flush_socket w2))
      | (_, w1) \<Rightarrow> w1)"
  by pat_completeness auto
termination
proof (relation "measure (\<lambda>w. rx_size (rx w))", goal_cases)
  case 1
  show ?case by simp
next
  case (2 w x1 w1 d xa)
  have "rx_size (rx w1) < rx_size (rx (w\<lparr>message_buffer := poke 0 NUL (message_buffer w)\<rparr>))"
    using 2 by (auto dest: sock_recv_size [OF sym])
  moreover have "rx_size (rx (gdb_flush_socket xa)) \<le> rx_size (rx xa)"
    by (rule gdb_flush_socket_size)
  ultimately show ?case using 2 by simp
qed

declare gdb_check_ack.simps [simp del]

lemma GDB_OK_neq_ERROR [simp]: "GDB_OK \<noteq> GDB_ERROR" "GDB_ERROR \<noteq> GDB_OK"
  by (simp_all add: GDB_OK_def GDB_ERROR_def)

definition gdb_error_reported :: "'s world \<Rightarrow> bool \<times> 's world" where
  "gdb_error_reported w =
     (let mb = message_buffer w in
      if buf_at mb 0 \<noteq> CHR ''$'' then (True, w\<lparr>last_gdb_error := ERR_BAD_MSG_FORMAT\<rparr>)
      else if buf_at mb 1 \<noteq> CHR ''E'' then (False, w)
      else
        (let w1 = w\<lparr>last_gdb_error := ERR_GDB_REPORTED_ERROR\<rparr> in
         if buf_at mb 4 = CHR ''#'' then
           (case sscanf_x (cstr (drop 2 mb)) of
              Some v \<Rightarrow> (True, w1\<lparr>last_gdb_error := v\<rparr>)
            | None \<Rightarrow> (True, w1))
         else (True, w1)))"

text \<open>The checksum: an \<open>unsigned char\<close> to which the characters are added.\<close>

definition checksum :: "string \<Rightarrow> nat" where
  "checksum s = sum_list (map of_char s) mod 256"

subsection \<open>gdb\_lib.cpp: reading memory\<close>

text \<open>The loop that converts the hex data; it stops at the first pair that is not hex and
  yields the bytes stored up to there.\<close>

fun decode_loop :: "nat \<Rightarrow> string \<Rightarrow> bool \<times> byte list" where
  "decode_loop 0 p = (True, [])"
| "decode_loop (Suc k) p =
     (let temp = get_hex_digit (Some p) in
      if temp \<ge> 0
      then (case decode_loop k (drop 2 p) of (ok, bs) \<Rightarrow> (ok, of_int temp # bs))
      else (False, []))"

text \<open>
  \<open>buffer\<close> is what the destination holds from the pointer on; the function returns it
  with the bytes it stored. The guard is computed in 32 bits as in the source; the model
  follows the source for every len below \<open>2^31 - 10\<close>, which the guard then bounds
  by the size of the message buffer.
\<close>

text \<open>The request that the two \<open>sprintf_s\<close> calls of \<open>read_memory_packet\<close> build:
  the command, then \<open>#\<close> and the checksum of the characters after the \<open>$\<close>.\<close>

definition read_request :: "u32 \<Rightarrow> nat \<Rightarrow> string" where
  "read_request address len =
     (let cmd = ''$m'' @ printf_hex lower_digits 8 (unat address) @ '','' @
                  printf_hex lower_digits 2 len;
          sum = checksum (drop 1 cmd)
      in cmd @ ''#'' @ printf_hex lower_digits 2 sum)"

definition read_memory_packet ::
    "'s gdb_server \<Rightarrow> byte list \<Rightarrow> u32 \<Rightarrow> nat \<Rightarrow> 's world \<Rightarrow> int \<times> byte list \<times> 's world" where
  "read_memory_packet env buffer address len w =
     (if (len * 2 + 4) mod 2 ^ 32 > TCP_BUFF_LENGTH \<or> len = 0
      then (GDB_ERROR, buffer, w\<lparr>last_gdb_error := ERR_BAD_INPUT_DATA\<rparr>)
      else
        (let msg = read_request address len;
             w1 = w\<lparr>message_buffer := store_str msg (message_buffer w)\<rparr>;
             (res, w2) = gdb_send env msg w1
         in if res \<noteq> GDB_OK then (GDB_ERROR, buffer, w2)
            else
              (let (res, w3) = gdb_get_message env 0 w2
               in if res \<noteq> GDB_OK then (GDB_ERROR, buffer, w3)
                  else
                    (let (reported, w4) = gdb_error_reported w3
                     in if reported then (GDB_ERROR, buffer, w4)
                        else if CHR ''*'' \<in> set (cstr (message_buffer w4))
                        then (GDB_ERROR, buffer,
                              w4\<lparr>last_gdb_error := ERR_RUN_LENGTH_ENCODING_NOT_IMPLEMENTED\<rparr>)
                        else
                          (let mb = message_buffer w4;
                               sum = checksum (take (len * 2) (drop 1 mb))
                           in if buf_at mb (len * 2 + 1) \<noteq> CHR ''#''
                              then (GDB_ERROR, buffer, w4\<lparr>last_gdb_error := ERR_BAD_MSG_FORMAT\<rparr>)
                              else
                                (let res = get_hex_digit (Some (drop (len * 2 + 2) mb))
                                 in if res < 0 \<or> int sum \<noteq> res
                                    then (GDB_ERROR, buffer,
                                          w4\<lparr>last_gdb_error := ERR_BAD_MSG_CHECKSUM\<rparr>)
                                    else
                                      (case decode_loop len (drop 1 mb) of
                                         (ok, bs) \<Rightarrow>
                                           if ok then (GDB_OK, overlay bs buffer, w4)
                                           else (GDB_ERROR, overlay bs buffer,
                                                 w4\<lparr>last_gdb_error := ERR_BAD_MSG_FORMAT\<rparr>))))))))"

lemma read_memory_packet_OK_len:
  "read_memory_packet env buffer address len w = (GDB_OK, r) \<Longrightarrow> len \<noteq> 0"
  by (rule ccontr) (simp add: read_memory_packet_def)

text \<open>The \<open>do .. while\<close> loop of \<open>gdb_read_memory\<close>.\<close>

function gdb_read_loop ::
    "'s gdb_server \<Rightarrow> byte list \<Rightarrow> u32 \<Rightarrow> nat \<Rightarrow> nat \<Rightarrow> 's world \<Rightarrow> int \<times> byte list \<times> 's world" where
  "gdb_read_loop env buffer address len data_read w =
     (let packet_size = len - data_read;
          packet_size = (if packet_size > unat (max_memo_read_packet_size w)
                         then unat (max_memo_read_packet_size w) else packet_size);
          (res, chunk, w1) =
             read_memory_packet env (drop data_read buffer) (address + of_nat data_read)
               packet_size w;
          buffer = take data_read buffer @ chunk
      in if res \<noteq> GDB_OK then (res, buffer, w1)
         else
           (let data_read = data_read + packet_size
            in if data_read < len then gdb_read_loop env buffer address len data_read w1
               else (res, buffer, w1)))"
  by pat_completeness auto
termination
  by (relation "measure (\<lambda>(env, buffer, address, len, data_read, w). len - data_read)")
     (auto dest!: read_memory_packet_OK_len [OF sym] split: if_splits)

declare gdb_read_loop.simps [simp del]

definition gdb_read_memory ::
    "'s gdb_server \<Rightarrow> byte list \<Rightarrow> u32 \<Rightarrow> nat \<Rightarrow> 's world \<Rightarrow> int \<times> byte list \<times> 's world" where
  "gdb_read_memory env buffer address len w =
     (let w0 = w\<lparr>last_gdb_error := 0\<rparr> in
      if len < 1 then (GDB_ERROR, buffer, w0\<lparr>last_gdb_error := ERR_BAD_INPUT_DATA\<rparr>)
      else gdb_read_loop env buffer address len 0 w0)"

subsection \<open>gdb\_lib.cpp: writing memory\<close>

text \<open>The message buffer after the \<open>sprintf_s\<close> calls of \<open>write_memory_packet\<close>: the
  header, the data as hex from index 16 on, then \<open>#\<close> and the checksum of the
  \<open>15 + 2 * length\<close> characters after the \<open>$\<close>.\<close>

definition write_request :: "string \<Rightarrow> byte list \<Rightarrow> u32 \<Rightarrow> nat \<Rightarrow> string" where
  "write_request mb buffer address len =
     (let hdr = ''$M'' @ printf_hex upper_digits 8 (unat address) @ '','' @
                  printf_hex upper_digits 4 len @ '':'';
          mb1 = store_str hdr mb;
          hexdata = concat (map (\<lambda>b. printf_hex upper_digits 2 (unat b)) (take len buffer));
          mb2 = write_at 16 (hexdata @ [NUL]) mb1;
          data_size = 15 + 2 * len;
          sum = checksum (take data_size (drop 1 mb2))
      in write_at (1 + data_size) (''#'' @ printf_hex upper_digits 2 sum @ [NUL]) mb2)"

definition write_memory_packet ::
    "'s gdb_server \<Rightarrow> byte list \<Rightarrow> u32 \<Rightarrow> nat \<Rightarrow> 's world \<Rightarrow> int \<times> 's world" where
  "write_memory_packet env buffer address len w =
     (if (len * 2 + 16 + 4) mod 2 ^ 32 > TCP_BUFF_LENGTH \<or> len = 0
      then (GDB_ERROR, w\<lparr>last_gdb_error := ERR_BAD_INPUT_DATA\<rparr>)
      else
        (let mb3 = write_request (message_buffer w) buffer address len;
             data_size = 15 + 2 * len;
             msg_len = 1 + data_size + 3;
             (res, w1) = gdb_send env (take msg_len mb3) (w\<lparr>message_buffer := mb3\<rparr>)
         in if res \<noteq> GDB_OK then (GDB_ERROR, w1)
            else
              (let (res, w2) = gdb_get_message env 0 w1
               in if res \<noteq> GDB_OK then (GDB_ERROR, w2)
                  else if strncmp_eq (message_buffer w2) ''$OK#'' 4 then (GDB_OK, w2)
                  else
                    (let (reported, w3) = gdb_error_reported w2
                     in if reported then (GDB_ERROR, w3)
                        else (GDB_ERROR, w3\<lparr>last_gdb_error := ERR_BAD_RESPONSE\<rparr>)))))"

lemma write_memory_packet_OK_len:
  "write_memory_packet env buffer address len w = (GDB_OK, r) \<Longrightarrow> len \<noteq> 0"
  by (rule ccontr) (simp add: write_memory_packet_def)

function gdb_write_loop ::
    "'s gdb_server \<Rightarrow> byte list \<Rightarrow> u32 \<Rightarrow> nat \<Rightarrow> nat \<Rightarrow> 's world \<Rightarrow> int \<times> 's world" where
  "gdb_write_loop env buffer address len data_written w =
     (let packet_size = len - data_written;
          packet_size = (if packet_size > unat (max_memo_write_packet_size w)
                         then unat (max_memo_write_packet_size w) else packet_size);
          (res, w1) =
             write_memory_packet env (drop data_written buffer) (address + of_nat data_written)
               packet_size w
      in if res \<noteq> GDB_OK then (res, w1)
         else
           (let data_written = data_written + packet_size
            in if data_written < len
               then gdb_write_loop env buffer address len data_written w1
               else (res, w1)))"
  by pat_completeness auto
termination
  by (relation "measure (\<lambda>(env, buffer, address, len, data_written, w). len - data_written)")
     (auto dest!: write_memory_packet_OK_len [OF sym] split: if_splits)

declare gdb_write_loop.simps [simp del]

definition gdb_write_memory ::
    "'s gdb_server \<Rightarrow> byte list \<Rightarrow> u32 \<Rightarrow> nat \<Rightarrow> 's world \<Rightarrow> int \<times> 's world" where
  "gdb_write_memory env buffer address len w =
     (let w0 = w\<lparr>last_gdb_error := 0\<rparr> in
      if len < 1 then (GDB_ERROR, w0\<lparr>last_gdb_error := ERR_BAD_INPUT_DATA\<rparr>)
      else gdb_write_loop env buffer address len 0 w0)"

subsection \<open>gdb\_lib.cpp: commands and the capabilities of the server\<close>

definition RECV_TIMEOUT :: nat where "RECV_TIMEOUT = 500"
definition LONG_RECV_TIMEOUT :: nat where "LONG_RECV_TIMEOUT = 2500"
definition ERROR_DATA_TIMEOUT :: nat where "ERROR_DATA_TIMEOUT = 50"

text \<open>\<open>command\<close> is a C string (it holds no NUL).\<close>

definition gdb_send_command :: "'s gdb_server \<Rightarrow> string \<Rightarrow> 's world \<Rightarrow> int \<times> 's world" where
  "gdb_send_command env command w =
     (let len = length command in
      if len \<ge> 1024 - 4 then (GDB_ERROR, w\<lparr>last_gdb_error := ERR_BAD_INPUT_DATA\<rparr>)
      else
        (let sendbuff = ''$'' @ command @ ''#'' @ printf_hex upper_digits 2 (checksum command)
         in gdb_send env (take (len + 4) sendbuff) w))"

definition calculate_max_message_sizes :: "'s world \<Rightarrow> 's world" where
  "calculate_max_message_sizes w =
     (let snd_size = (if unat (max_gdb_send_message_size w) > TCP_BUFF_LENGTH
                      then of_nat TCP_BUFF_LENGTH else max_gdb_send_message_size w);
          rcv_size = snd_size;
          rcv_size =
            (if max_message_size (parameters w) \<noteq> 0
             then (let r = max_message_size (parameters w)
                   in if unat r > TCP_BUFF_LENGTH then of_nat TCP_BUFF_LENGTH else r)
             else rcv_size)
      in w\<lparr>max_gdb_send_message_size := snd_size,
            max_gdb_recv_message_size := rcv_size,
            max_memo_read_packet_size := ((rcv_size - 4) div 8) * 4,
            max_memo_write_packet_size := ((snd_size - 16 - 4) div 8) * 4\<rparr>)"

definition parse_capability_data :: "string \<Rightarrow> 's world \<Rightarrow> int \<times> 's world" where
  "parse_capability_data recvbuf w =
     (if strstr (cstr recvbuf) ''QStartNoAckMode+'' = None then (GDB_ERROR, w)
      else
        (let w1 = w\<lparr>max_gdb_send_message_size := DEFAULT_MESSAGE_SIZE\<rparr>;
             w2 =
               (case strstr (cstr recvbuf) ''PacketSize='' of
                  Some text_position \<Rightarrow>
                    (case sscanf_x (drop (length ''PacketSize='') text_position) of
                       Some v \<Rightarrow> w1\<lparr>max_gdb_send_message_size := v\<rparr>
                     | None \<Rightarrow> w1\<lparr>max_gdb_send_message_size := DEFAULT_MESSAGE_SIZE\<rparr>)
                | None \<Rightarrow> w1\<lparr>max_gdb_send_message_size := DEFAULT_MESSAGE_SIZE\<rparr>)
         in (GDB_OK, calculate_max_message_sizes w2)))"

definition gdb_check_server_capabilities :: "'s gdb_server \<Rightarrow> 's world \<Rightarrow> int \<times> 's world" where
  "gdb_check_server_capabilities env w =
     (let (res, w1) = gdb_send_command env ''qSupported'' (w\<lparr>last_gdb_error := 0\<rparr>)
      in if res \<noteq> GDB_OK then (GDB_ERROR, w1)
         else
           (let (res, w2) = gdb_get_message env LONG_RECV_TIMEOUT (gdb_check_ack w1)
            in if res \<noteq> GDB_OK then (GDB_ERROR, w2)
               else parse_capability_data (message_buffer w2) w2))"

definition gdb_detach :: "'s gdb_server \<Rightarrow> 's world \<Rightarrow> 's world" where
  "gdb_detach env w =
     (if detach (parameters w) then
        (let (res, w1) = gdb_send_command env ''D'' w
         in if res \<noteq> GDB_OK then w1 else snd (gdb_get_message env 0 w1))
      else w)"

definition gdb_request_no_ack_mode :: "'s gdb_server \<Rightarrow> 's world \<Rightarrow> int \<times> 's world" where
  "gdb_request_no_ack_mode env w =
     (let (res, w1) = gdb_send_command env ''QStartNoAckMode'' (w\<lparr>ack_mode_enabled := True\<rparr>)
      in if res \<noteq> GDB_OK then (GDB_ERROR, w1)
         else
           (let (res, w2) = gdb_get_message env 0 (gdb_check_ack w1)
            in if res \<noteq> GDB_OK then (GDB_ERROR, w2)
               else if \<not> strncmp_eq (message_buffer w2) ''$OK#'' 4 then (GDB_ERROR, w2)
               else (GDB_OK, gdb_flush_socket (w2\<lparr>ack_mode_enabled := False\<rparr>))))"

text \<open>\<open>gdb_connect\<close>. Whether \<open>gdb_connect_socket\<close> succeeds is the field \<open>connects\<close>;
  \<open>gdb_socket_cleanup\<close> and \<open>_fcloseall\<close> end the use of the socket and of the files
  and change nothing the model records.\<close>

definition gdb_connect :: "'s gdb_server \<Rightarrow> 's world \<Rightarrow> int \<times> 's world" where
  "gdb_connect env w =
     (let w0 = w\<lparr>last_gdb_error := 0\<rparr> in
      if \<not> connects w0 then (GDB_ERROR, w0)
      else
        (let w1 = w0\<lparr>ack_mode_enabled := True\<rparr>;
             w2 =
               (case sock_recv TCP_BUFF_LENGTH w1 of
                  (Received d, w') \<Rightarrow>
                    if d \<noteq> []
                    then gdb_flush_socket (w'\<lparr>message_buffer := overlay d (message_buffer w')\<rparr>)
                    else w'
                | (_, w') \<Rightarrow> w');
             (res, w3) = gdb_check_server_capabilities env w2
         in if res \<noteq> GDB_OK then (GDB_ERROR, w3)
            else gdb_request_no_ack_mode env w3))"

subsection \<open>gdb\_lib.cpp: executing a command\<close>

text \<open>\<open>p = strchr(s, c); if (p != NULL) *p = 0\<close> on the C string at the head of an array.\<close>

definition cut_at :: "char \<Rightarrow> string \<Rightarrow> string" where
  "cut_at c b =
     (let s = cstr b in
      if c \<in> set s then poke (length (takeWhile (\<lambda>x. x \<noteq> c) s)) NUL b else b)"

text \<open>The value of a \<open>char\<close> as the signed type it is, and \<open>toupper\<close> in the C locale.\<close>

definition schar :: "char \<Rightarrow> int" where
  "schar c = (if (of_char c :: int) \<ge> 128 then of_char c - 256 else of_char c)"

definition toupper :: "char \<Rightarrow> int" where
  "toupper c =
     (if of_char CHR ''a'' \<le> schar c \<and> schar c \<le> of_char CHR ''z'' then schar c - 32 else schar c)"

definition O_value :: "char \<Rightarrow> int" where
  "O_value c = toupper c - of_char CHR ''0'' - (if schar c > of_char CHR ''9'' then 7 else 0)"

fun O_pairs :: "string \<Rightarrow> string" where
  "O_pairs (first_hex # second_hex # r) =
     char_of (push_bit 4 (O_value first_hex) OR O_value second_hex) # O_pairs r"
| "O_pairs _ = []"

definition print_O_type_message :: "'s world \<Rightarrow> 's world" where
  "print_O_type_message w =
     (let mb = message_buffer w;
          off = (if strncmp_eq mb ''$O'' 2 then 2 else 0);
          hex_string = cut_at CHR ''#'' (drop off mb);
          len = length (cstr hex_string)
      in if len < 2 then w\<lparr>message_buffer := take off mb @ hex_string\<rparr>
         else
           (let out = O_pairs (cstr hex_string);
                converted = overlay (out @ [NUL]) hex_string;
                text = cstr converted;
                spaced = overlay (map (\<lambda>c. if c = CHR 0x0A then CHR '' '' else c) text) converted
            in w\<lparr>message_buffer := take off mb @ spaced\<rparr>))"

definition get_core_content :: "'s world \<Rightarrow> 's world" where
  "get_core_content w =
     (let mb = message_buffer w;
          off = (if buf_at mb 0 = CHR ''$'' then 1 else 0)
      in w\<lparr>message_buffer := take off mb @ cut_at CHR ''#'' (drop off mb)\<rparr>)"

lemma sock_send_ack_rx: "rx (snd (sock_send env ''+'' w)) = rx w"
  by (simp add: sock_send_def split: prod.splits)

lemma gdb_send_ack_rx: "rx (gdb_send_ack env w) = rx w"
proof -
  have "rx (snd (gdb_send env ''+'' w)) = rx w"
    using sock_send_ack_rx [of env w]
    by (auto simp: gdb_send_def split: prod.splits send_status.splits)
  then show ?thesis by (simp add: gdb_send_ack_def)
qed

lemma gdb_get_loop_size:
  "gdb_get_loop env n w = (GDB_OK, w') \<Longrightarrow> rx_size (rx w') < rx_size (rx w)"
proof (induction env n w rule: gdb_get_loop.induct)
  case (1 env n w)
  obtain r w1 where R: "sock_recv (TCP_BUFF_LENGTH - n) w = (r, w1)"
    by (cases "sock_recv (TCP_BUFF_LENGTH - n) w") auto
  show ?case
  proof (cases r)
    case (Received d)
    show ?thesis
    proof (cases "d = []")
      case True
      with "1.prems" R Received show ?thesis
        by (subst (asm) gdb_get_loop.simps) simp
    next
      case False
      have less: "rx_size (rx w1) < rx_size (rx w)"
        using sock_recv_size R Received False by blast
      let ?w2 = "w1\<lparr>message_buffer := write_at n d (message_buffer w1)\<rparr>"
      show ?thesis
      proof (cases "n + length d \<ge> TCP_BUFF_LENGTH - 1")
        case True
        with "1.prems" R Received False show ?thesis
          by (subst (asm) gdb_get_loop.simps) (simp add: Let_def)
      next
        case noover: False
        show ?thesis
        proof (cases "n + length d \<ge> 4
            \<and> buf_at (message_buffer ?w2) (n + length d - 3) = CHR ''#''")
          case True
          with "1.prems" R Received False noover less show ?thesis
            by (subst (asm) gdb_get_loop.simps) (auto simp: Let_def gdb_send_ack_rx)
        next
          case stay: False
          have "gdb_get_loop env (n + length d) ?w2 = (GDB_OK, w')"
            using "1.prems" R Received False noover stay
            by (subst (asm) gdb_get_loop.simps) (auto simp: Let_def)
          then have "rx_size (rx w') < rx_size (rx ?w2)"
            by (rule "1.IH" [OF R [symmetric] Received False refl refl noover stay])
          with less show ?thesis by simp
        qed
      qed
    qed
  next
    case RecvTimedOut
    with "1.prems" R show ?thesis
      by (subst (asm) gdb_get_loop.simps) simp
  next
    case RecvFailed
    with "1.prems" R show ?thesis
      by (subst (asm) gdb_get_loop.simps) simp
  qed
qed

lemma gdb_get_message_size:
  "gdb_get_message env t w = (GDB_OK, w') \<Longrightarrow> rx_size (rx w') < rx_size (rx w)"
  using gdb_get_loop_size [of env 0 "w\<lparr>message_buffer := poke 0 NUL (message_buffer w)\<rparr>" w']
  by (simp add: gdb_get_message_def)

lemma print_O_type_message_rx: "rx (print_O_type_message w) = rx w"
  by (simp add: print_O_type_message_def Let_def)

text \<open>The \<open>do .. while\<close> loop over the messages of type \<open>O\<close>; \<open>True\<close> is the
  \<open>return GDB_ERROR\<close> inside it.\<close>

function O_loop :: "'s gdb_server \<Rightarrow> 's world \<Rightarrow> bool \<times> 's world" where
  "O_loop env w =
     (let (res, w1) = gdb_get_message env ERROR_DATA_TIMEOUT (print_O_type_message w)
      in if res > 0 then gdb_error_reported w1
         else if res = GDB_OK then O_loop env w1
         else (False, w1))"
  by pat_completeness auto
termination
  by (relation "measure (\<lambda>(env, w). rx_size (rx w))")
     (auto dest!: gdb_get_message_size [OF sym] simp: print_O_type_message_rx)

declare O_loop.simps [simp del]

definition gdb_execute_command :: "'s gdb_server \<Rightarrow> string \<Rightarrow> 's world \<Rightarrow> int \<times> 's world" where
  "gdb_execute_command env command w =
     (let (res, w1) = gdb_send_command env command (w\<lparr>last_gdb_error := 0\<rparr>)
      in if res \<noteq> GDB_OK then (GDB_ERROR, w1)
         else
           (let (res, w2) = gdb_get_message env 0 w1
            in if res \<noteq> GDB_OK then (GDB_ERROR, w2)
               else
                 (let (reported, w3) = gdb_error_reported w2
                  in if reported then (GDB_ERROR, w3)
                     else if strncmp_eq (message_buffer w3) ''$O'' 2 then
                       (if buf_at (message_buffer w3) 2 \<noteq> CHR ''K'' then
                          (let (failed, w4) = O_loop env w3
                           in if failed then (GDB_ERROR, w4) else (GDB_OK, w4))
                        else (GDB_OK, w3))
                     else (GDB_ERROR, gdb_flush_socket (get_core_content w3)))))"

subsection \<open>RTEgdbData.cpp: operations on the data logging structure\<close>

definition MESSAGE_FILTER_ADDRESS :: "'s world \<Rightarrow> u32" where
  "MESSAGE_FILTER_ADDRESS w = start_address (parameters w) + 4"

definition RTE_CFG_WORD_ADDRESS :: "'s world \<Rightarrow> u32" where
  "RTE_CFG_WORD_ADDRESS w = start_address (parameters w) + 8"

text \<open>Bytes stored into a byte array from an offset on.\<close>

definition store_bytes :: "nat \<Rightarrow> byte list \<Rightarrow> byte list \<Rightarrow> byte list" where
  "store_bytes off new old = take off old @ new @ drop (off + length new) old"

definition check_message_filter_disabled :: "'s gdb_server \<Rightarrow> 's world \<Rightarrow> int \<times> 's world" where
  "check_message_filter_disabled env w =
     (let (rez, bs, w1) = gdb_read_memory env [0, 0, 0, 0] (MESSAGE_FILTER_ADDRESS w) 4 w;
          message_filter = bytes_word bs
      in if rez \<noteq> GDB_OK then (GDB_ERROR, w1)
         else if message_filter \<noteq> 0 then (GDB_ERROR, w1)
         else (GDB_OK, w1))"

definition pause_data_logging :: "'s gdb_server \<Rightarrow> 's world \<Rightarrow> int \<times> 's world" where
  "pause_data_logging env w = gdb_write_memory env [0, 0, 0, 0] (MESSAGE_FILTER_ADDRESS w) 4 w"

definition erase_buffer_index :: "'s gdb_server \<Rightarrow> 's world \<Rightarrow> int \<times> 's world" where
  "erase_buffer_index env w =
     gdb_write_memory env [0, 0, 0, 0] (start_address (parameters w)) 4 w"

definition single_shot_active :: "'s world \<Rightarrow> bool" where
  "single_shot_active w =
     (RTE_SINGLE_SHOT_WAS_ACTIVE (rtedbg_header w) \<noteq> 0
      \<and> RTE_SINGLE_SHOT_LOGGING_ENABLED (rtedbg_header w) \<noteq> 0)"

definition reset_circular_buffer :: "'s gdb_server \<Rightarrow> 's world \<Rightarrow> int \<times> 's world" where
  "reset_circular_buffer env w =
     (let cleared =
            (if clear_buffer (parameters w) then
               (let circular_buffer_size =
                      unat (size_p (parameters w) - of_nat sizeof_rtedbg_header)
                in if \<not> malloc_ok w circular_buffer_size then (True, GDB_ERROR, w)
                   else
                     (let (rez, w1) =
                            gdb_write_memory env (replicate circular_buffer_size 0xFF)
                              (start_address (parameters w) + of_nat sizeof_rtedbg_header)
                              circular_buffer_size w
                      in if rez \<noteq> GDB_OK then (True, GDB_ERROR, w1) else (False, rez, w1)))
             else (False, GDB_OK, w))
      in case cleared of
           (returned, rez, w1) \<Rightarrow>
             if returned then (rez, w1)
             else if clear_buffer (parameters w1) \<or> single_shot_active w1
             then erase_buffer_index env w1
             else (rez, w1))"

definition check_header_info :: "'s world \<Rightarrow> int" where
  "check_header_info w =
     (if of_nat sizeof_rtedbg_header \<noteq> RTE_HEADER_SIZE (rtedbg_header w)
         \<or> RTE_CFG_RESERVED_BITS (rtedbg_header w) \<noteq> 0
         \<or> RTE_CFG_RESERVED2 (rtedbg_header w) \<noteq> 0
      then GDB_ERROR else GDB_OK)"

text \<open>\<open>malloc\<close> returns memory of unspecified content; the model fills it with zeros.\<close>

definition allocate_memory_for_g_rtedbg_structure :: "'s world \<Rightarrow> bool \<times> 's world" where
  "allocate_memory_for_g_rtedbg_structure w =
     (if size_p (parameters w) = 0 then (False, w)
      else if p_rtedbg_structure w \<noteq> None then (True, w)
      else if \<not> malloc_ok w (unat (size_p (parameters w))) then (False, w)
      else (True, w\<lparr>p_rtedbg_structure := Some (replicate (unat (size_p (parameters w))) 0)\<rparr>))"

definition load_rtedbg_structure_header :: "'s gdb_server \<Rightarrow> 's world \<Rightarrow> int \<times> 's world" where
  "load_rtedbg_structure_header env w =
     (let (res, bs, w0) =
            gdb_read_memory env (header_bytes (rtedbg_header w)) (start_address (parameters w))
              sizeof_rtedbg_header w;
          w1 = w0\<lparr>rtedbg_header := bytes_header bs\<rparr>
      in if res \<noteq> GDB_OK then (GDB_ERROR, w1)
         else
           (let new_size = buffer_size (rtedbg_header w1) * 4 + of_nat sizeof_rtedbg_header;
                sized =
                  (if size_p (parameters w1) = 0 \<or> new_size \<noteq> size_p (parameters w1) then
                     (let w2 = w1\<lparr>parameters := (parameters w1)\<lparr>size_p := new_size\<rparr>\<rparr>
                      in if size_p (parameters w2) < MIN_BUFFER_SIZE then (True, w2)
                         else if size_p (parameters w2) > MAX_BUFFER_SIZE then (True, w2)
                         else (False, w2\<lparr>p_rtedbg_structure := None\<rparr>))
                   else (False, w1))
            in case sized of
                 (returned, w3) \<Rightarrow>
                   if returned then (GDB_ERROR, w3)
                   else
                     (case allocate_memory_for_g_rtedbg_structure w3 of
                        (ok, w4) \<Rightarrow> if \<not> ok then (GDB_ERROR, w4) else (GDB_OK, w4))))"

definition set_or_restore_message_filter :: "'s gdb_server \<Rightarrow> 's world \<Rightarrow> int \<times> 's world" where
  "set_or_restore_message_filter env w =
     (let old_filter = old_msg_filter w;
          old_filter = (if old_filter = 0 \<and> RTE_FILTER_OFF_ENABLED (rtedbg_header w) \<noteq> 0
                        then filter_copy (rtedbg_header w) else old_filter);
          old_filter = (if set_filter (parameters w) then filter_p (parameters w) else old_filter)
      in gdb_write_memory env (word_bytes old_filter) (MESSAGE_FILTER_ADDRESS w) 4 w)"

definition read_memory_block ::
    "'s gdb_server \<Rightarrow> byte list \<Rightarrow> u32 \<Rightarrow> nat \<Rightarrow> 's world \<Rightarrow> int \<times> byte list \<times> 's world" where
  "read_memory_block env buffer address block_size w =
     (let (res, buffer, w1) = gdb_read_memory env buffer address block_size w
      in if res \<noteq> GDB_OK then (GDB_ERROR, buffer, w1) else (GDB_OK, buffer, w1))"

text \<open>\<open>save_rtedbg_structure\<close>. \<open>fopen_s(.., "wb")\<close> fails on the names \<open>unwritable\<close>
  holds and creates an empty file otherwise; \<open>fwrite\<close> stores as many bytes as
  \<open>disk_free\<close> allows.\<close>

definition save_rtedbg_structure :: "'s gdb_server \<Rightarrow> 's world \<Rightarrow> int \<times> 's world" where
  "save_rtedbg_structure env w =
     (case p_rtedbg_structure w of
        None \<Rightarrow> (GDB_ERROR, w)
      | Some mirror \<Rightarrow>
          (let (err, mirror, w0) =
                 read_memory_block env mirror (start_address (parameters w))
                   (unat (size_p (parameters w))) w;
               w1 = w0\<lparr>p_rtedbg_structure := Some mirror\<rparr>
           in if err \<noteq> GDB_OK then (GDB_ERROR, w1)
              else if unwritable w1 (bin_file_name (parameters w1)) then (GDB_ERROR, w1)
              else
                (let mirror = store_bytes 4 (word_bytes (old_msg_filter w1)) mirror;
                     data = take (unat (size_p (parameters w1))) mirror;
                     written = min (length data) (disk_free w1);
                     w2 = w1\<lparr>p_rtedbg_structure := Some mirror,
                             bin_files := (bin_files w1)
                               (bin_file_name (parameters w1) := Some (take written data)),
                             disk_free := disk_free w1 - written\<rparr>
                 in if written \<noteq> unat (size_p (parameters w2)) then (GDB_ERROR, w2)
                    else (GDB_OK, w2))))"

text \<open>\<open>single_data_transfer\<close>. The batch file of \<open>-decode\<close> runs outside the program.\<close>

definition single_data_transfer :: "'s gdb_server \<Rightarrow> 's world \<Rightarrow> int \<times> 's world" where
  "single_data_transfer env w =
     (let w0 = gdb_handle_unexpected_messages w;
          (rez, bs, w1) =
             gdb_read_memory env (word_bytes (old_msg_filter w0)) (MESSAGE_FILTER_ADDRESS w0) 4 w0;
          w1 = w1\<lparr>old_msg_filter := bytes_word bs\<rparr>
      in if rez \<noteq> GDB_OK then (1, w1)
         else
           (let (rez, w2) = (if old_msg_filter w1 \<noteq> 0 then pause_data_logging env w1
                             else (GDB_OK, w1))
            in if rez \<noteq> GDB_OK then (1, w2)
               else
                 (let (rez, w3) = load_rtedbg_structure_header env w2
                  in if rez \<noteq> GDB_OK then (1, w3)
                     else if check_header_info w3 \<noteq> GDB_OK then (1, w3)
                     else
                       (let (rez, w4) = save_rtedbg_structure env w3
                        in if rez \<noteq> GDB_OK
                           then (1, snd (set_or_restore_message_filter env w4))
                           else
                             (let (rez, w5) = check_message_filter_disabled env w4
                              in if rez \<noteq> GDB_OK
                                 then (1, snd (set_or_restore_message_filter env w5))
                                 else
                                   (let (rez, w6) = reset_circular_buffer env w5
                                    in if rez \<noteq> GDB_OK then (1, w6)
                                       else
                                         (let (rez, w7) = set_or_restore_message_filter env w6
                                          in if rez \<noteq> GDB_OK then (1, w7)
                                             else (0, w7))))))))"

text \<open>\<open>initialize_data_logging_structure\<close> (the command \<open>#init\<close>).\<close>

definition initialize_data_logging_structure ::
    "'s gdb_server \<Rightarrow> u32 \<Rightarrow> u32 \<Rightarrow> 's world \<Rightarrow> 's world" where
  "initialize_data_logging_structure env cfg_word timestamp_freq w =
     (if timestamp_freq = 0 then w
      else if size_p (parameters w) = 0 then w
      else
        (let rtedbg = \<lparr> last_index = 0, filter_h = 0, rte_cfg = cfg_word,
                         timestamp_frequency = timestamp_freq,
                         filter_copy = filter_p (parameters w),
                         buffer_size =
                           (size_p (parameters w) - of_nat sizeof_rtedbg_header) div 4 \<rparr>;
             (rez, w1) = pause_data_logging env w
         in if rez \<noteq> GDB_OK then w1
            else
              (let (rez, w2) =
                     gdb_write_memory env (header_bytes rtedbg) (start_address (parameters w1))
                       sizeof_rtedbg_header w1
               in if rez \<noteq> GDB_OK then w2
                  else
                    (let (rez, w3) = reset_circular_buffer env w2
                     in if rez \<noteq> GDB_OK then w3
                        else if filter_p (parameters w3) \<noteq> 0
                        then snd (gdb_write_memory env (word_bytes (filter_p (parameters w3)))
                                    (MESSAGE_FILTER_ADDRESS w3) 4 w3)
                        else w3))))"

text \<open>\<open>set_new_filter_value\<close> with a value given as text (the command \<open>#filter\<close>); the
  call with a null pointer, which asks at the keyboard, belongs to the interactive loop.\<close>

definition set_new_filter_value :: "'s gdb_server \<Rightarrow> string \<Rightarrow> 's world \<Rightarrow> 's world" where
  "set_new_filter_value env filter_value w =
     (if RTE_MSG_FILTERING_ENABLED (rtedbg_header w) = 0 then w
      else
        (let w1 = (case sscanf_x filter_value of
                     Some new_filter \<Rightarrow> w\<lparr>parameters := (parameters w)\<lparr>filter_p := new_filter\<rparr>\<rparr>
                   | None \<Rightarrow> w);
             w2 = w1\<lparr>parameters := (parameters w1)\<lparr>set_filter := True\<rparr>\<rparr>
         in snd (set_or_restore_message_filter env w2)))"

subsection \<open>gdb\_lib.cpp: command files\<close>

text \<open>\<open>strncmp(cmd_text, prefix, length of prefix) == 0\<close> for a C string \<open>cmd_text\<close>.\<close>

definition starts_with :: "string \<Rightarrow> string \<Rightarrow> bool" where
  "starts_with cmd_text pre = (take (length pre) cmd_text = pre)"

definition internal_command :: "'s gdb_server \<Rightarrow> string \<Rightarrow> 's world \<Rightarrow> 's world" where
  "internal_command env cmd_text w =
     (if starts_with cmd_text ''##'' then w
      else if starts_with cmd_text ''#delay '' then
        (case sscanf_u (drop 7 cmd_text) of
           Some delay_ms \<Rightarrow> if delay_ms > 0 then gdb_flush_socket w else w
         | None \<Rightarrow> w)
      else if starts_with cmd_text ''#init '' then
        (case sscanf_x_u (drop 6 cmd_text) of
           Some (cfg_word, timestamp_freq) \<Rightarrow>
             initialize_data_logging_structure env cfg_word timestamp_freq w
         | None \<Rightarrow> w)
      else if starts_with cmd_text ''#filter '' then set_new_filter_value env (drop 8 cmd_text) w
      else w)"

text \<open>\<open>fgets(cmd_text, n, file)\<close> on the text still to be read: \<open>None\<close> at its end,
  else at most \<open>n - 1\<close> characters up to and including the first newline, and the rest.\<close>

definition newline :: char where "newline = CHR 0x0A"

definition fgets :: "nat \<Rightarrow> string \<Rightarrow> (string \<times> string) option" where
  "fgets n text =
     (if text = [] then None
      else
        (let line = takeWhile (\<lambda>c. c \<noteq> newline) text;
             line = (if length line < length text then line @ [newline] else line);
             line = take (n - 1) line
         in Some (line, drop (length line) text)))"

lemma fgets_shorter:
  assumes "fgets 512 text = Some (line, rest)"
  shows "length rest < length text"
proof -
  let ?tw = "takeWhile (\<lambda>c. c \<noteq> newline) text"
  have ne: "text \<noteq> []" using assms by (auto simp: fgets_def split: if_splits)
  have le: "length ?tw \<le> length text" by (rule length_takeWhile_le)
  show ?thesis
  proof (cases "length ?tw < length text")
    case True
    with assms ne show ?thesis by (auto simp: fgets_def Let_def min_def split: if_splits)
  next
    case False
    with le have "length ?tw = length text" by simp
    with assms ne False show ?thesis by (auto simp: fgets_def Let_def min_def split: if_splits)
  qed
qed

text \<open>The loop over the lines of a command file.\<close>

function command_loop :: "'s gdb_server \<Rightarrow> string \<Rightarrow> 's world \<Rightarrow> 's world" where
  "command_loop env text w =
     (case fgets 512 text of
        None \<Rightarrow> w
      | Some (line, rest) \<Rightarrow>
          (let cmd_text = cstr (takeWhile (\<lambda>c. c \<noteq> newline) line)
           in if length cmd_text > 0 then
                (if hd cmd_text = CHR ''#''
                 then command_loop env rest (internal_command env cmd_text w)
                 else
                   (let (res, w1) = gdb_execute_command env cmd_text w
                    in if res \<noteq> GDB_OK then w1 else command_loop env rest w1))
              else command_loop env rest w))"
  by pat_completeness auto
termination
  by (relation "measure (\<lambda>(env, text, w). length text)")
     (auto dest: fgets_shorter)

declare command_loop.simps [simp del]

text \<open>\<open>cmd_file\<close> is a pointer to a file name: \<open>None\<close> is the null pointer. A file that
  cannot be opened is one \<open>cmd_files\<close> does not hold.\<close>

definition gdb_send_commands_from_file ::
    "'s gdb_server \<Rightarrow> string option \<Rightarrow> 's world \<Rightarrow> int \<times> 's world" where
  "gdb_send_commands_from_file env cmd_file w =
     (case cmd_file of
        None \<Rightarrow> (0, w)
      | Some name \<Rightarrow>
          (let w1 = gdb_handle_unexpected_messages w
           in case cmd_files w1 name of
                None \<Rightarrow> (1, w1)
              | Some text \<Rightarrow> (0, command_loop env text w1)))"

subsection \<open>RTEgdbData.cpp: main\<close>

text \<open>
  \<open>main\<close> after the command line has been parsed into \<open>parameters\<close>. The interactive
  loop \<open>persistent_connection\<close> waits for keys and for the clock; it is the parameter
  \<open>interactive\<close>. The process priorities belong to the operating system.
\<close>

definition main ::
    "'s gdb_server \<Rightarrow> ('s world \<Rightarrow> int \<times> 's world) \<Rightarrow> 's world \<Rightarrow> int \<times> 's world" where
  "main env interactive w =
     (let (res, w1) = gdb_connect env w
      in if res \<noteq> GDB_OK then (1, w1)
         else
           (let (rez, w2) = gdb_send_commands_from_file env (start_cmd_file (parameters w1)) w1
            in if rez \<noteq> 0 then (1, gdb_detach env w2)
               else
                 (let (rez, w3) = (if persistent_connection (parameters w2) then interactive w2
                                   else single_data_transfer env w2)
                  in (rez, gdb_detach env w3))))"

subsection \<open>A GDB server that presents a target memory\<close>

text \<open>
  The server the transfer is meant for, in no-acknowledgement mode: its state is the
  memory of the target. It answers a well-formed \<open>m addr,length\<close> packet with the bytes
  as lower-case hex, performs a well-formed \<open>M addr,length:data\<close> packet and answers
  \<open>OK\<close>, and answers every other packet with the empty reply. A packet with a wrong
  checksum is dropped. Each reply arrives as one run of bytes.
\<close>

type_synonym memory = "u32 \<Rightarrow> byte"

definition mem_read :: "memory \<Rightarrow> u32 \<Rightarrow> nat \<Rightarrow> byte list" where
  "mem_read m a n = map (\<lambda>i. m (a + of_nat i)) [0..<n]"

fun mem_write :: "memory \<Rightarrow> u32 \<Rightarrow> byte list \<Rightarrow> memory" where
  "mem_write m a [] = m"
| "mem_write m a (b # bs) = mem_write (m(a := b)) (a + 1) bs"

definition hex_number :: "string \<Rightarrow> nat option" where
  "hex_number s = (if s \<noteq> [] \<and> list_all (is_digit_in 16) s then Some (digits_value 16 s) else None)"

fun hex_bytes :: "string \<Rightarrow> byte list option" where
  "hex_bytes [] = Some []"
| "hex_bytes [c] = None"
| "hex_bytes (c # d # r) =
     (case (hex_number [c, d], hex_bytes r) of
        (Some v, Some bs) \<Rightarrow> Some (of_nat v # bs)
      | _ \<Rightarrow> None)"

definition rsp_frame :: "string \<Rightarrow> string" where
  "rsp_frame payload = ''$'' @ payload @ ''#'' @ printf_hex lower_digits 2 (checksum payload)"

definition hex_dump :: "byte list \<Rightarrow> string" where
  "hex_dump bs = concat (map (\<lambda>b. printf_hex lower_digits 2 (unat b)) bs)"

definition serve_payload :: "string \<Rightarrow> memory \<Rightarrow> string \<times> memory" where
  "serve_payload payload m =
     (case payload of
        [] \<Rightarrow> ([], m)
      | c # r \<Rightarrow>
          if c = CHR ''m'' then
            (let a = takeWhile (\<lambda>x. x \<noteq> CHR '','') r;
                 n = drop (Suc (length a)) r
             in case (hex_number a, hex_number n) of
                  (Some addr, Some len) \<Rightarrow> (hex_dump (mem_read m (of_nat addr) len), m)
                | _ \<Rightarrow> ([], m))
          else if c = CHR ''M'' then
            (let a = takeWhile (\<lambda>x. x \<noteq> CHR '','') r;
                 r1 = drop (Suc (length a)) r;
                 n = takeWhile (\<lambda>x. x \<noteq> CHR '':'') r1;
                 d = drop (Suc (length n)) r1
             in case (hex_number a, hex_number n, hex_bytes d) of
                  (Some addr, Some len, Some bs) \<Rightarrow>
                    if length bs = len then (''OK'', mem_write m (of_nat addr) bs) else ([], m)
                | _ \<Rightarrow> ([], m))
          else ([], m))"

definition memory_server :: "memory gdb_server" where
  "memory_server =
     \<lparr> on_packet = (\<lambda>msg m.
         (let payload = takeWhile (\<lambda>x. x \<noteq> CHR ''#'') (tl msg);
              trailer = drop (Suc (length payload)) msg
          in if msg \<noteq> [] \<and> hd msg = CHR ''$'' \<and> length trailer = 3 \<and> hd trailer = CHR ''#''
                \<and> hex_number (tl trailer) = Some (checksum payload)
             then (case serve_payload payload m of
                     (reply, m') \<Rightarrow> (Sent (length msg), [Data (rsp_frame reply)], m'))
             else (Sent (length msg), [], m))),
       on_ack = (\<lambda>m. (Sent 1, m)) \<rparr>"

text \<open>A target for the examples: a structure of 80 bytes at \<open>0x24000000\<close> with the
  filter \<open>0x0F\<close>, a header of 6 words, message filtering enabled and 14 words of buffer,
  read by a client that has negotiated packets of 4096 bytes.\<close>

definition demo_header :: rtedbg_header_t where
  "demo_header =
     \<lparr> last_index = 5, filter_h = 0x0F, rte_cfg = 0x06000002,
       timestamp_frequency = 48000000, filter_copy = 0x0F, buffer_size = 14 \<rparr>"

definition demo_memory :: memory where
  "demo_memory = mem_write (\<lambda>a. 0) 0x24000000 (header_bytes demo_header)"

definition demo_parameters :: parameters_t where
  "demo_parameters =
     \<lparr> start_address = 0x24000000, size_p = 0, filter_p = 0, set_filter = False, delay = 0,
       decode_file = None, bin_file_name = ''data.bin'', start_cmd_file = None,
       clear_buffer = False, persistent_connection = False, detach = False,
       max_message_size = 0 \<rparr>"

definition demo_world :: "memory world" where
  "demo_world =
     \<lparr> srv = demo_memory, rx = [], tx = [], connects = True,
       cmd_files = (\<lambda>name. None), bin_files = (\<lambda>name. None), unwritable = (\<lambda>name. False),
       disk_free = 1000000, malloc_ok = (\<lambda>n. True), message_buffer = [],
       last_gdb_error = 0, ack_mode_enabled = False,
       max_memo_read_packet_size = 2044, max_memo_write_packet_size = 2036,
       max_gdb_send_message_size = 4096, max_gdb_recv_message_size = 4096,
       parameters = demo_parameters, old_msg_filter = 0,
       rtedbg_header = \<lparr> last_index = 0, filter_h = 0, rte_cfg = 0, timestamp_frequency = 0,
                         filter_copy = 0, buffer_size = 0 \<rparr>,
       p_rtedbg_structure = None \<rparr>"

text \<open>The packets sent so far: what was handed to \<open>send\<close>, without the
  acknowledgements.\<close>

definition packets :: "'s world \<Rightarrow> string list" where
  "packets w = filter (\<lambda>m. m \<noteq> ''+'') (tx w)"

section \<open>What the network functions leave unchanged\<close>

text \<open>The functions of gdb\_lib.cpp that talk to the server change the socket, the
  server, the message buffer and \<open>last_gdb_error\<close> only.\<close>

definition same_session :: "'s world \<Rightarrow> 's world \<Rightarrow> bool" where
  "same_session w w' =
     (connects w' = connects w \<and> cmd_files w' = cmd_files w \<and> bin_files w' = bin_files w
      \<and> unwritable w' = unwritable w \<and> disk_free w' = disk_free w \<and> malloc_ok w' = malloc_ok w
      \<and> ack_mode_enabled w' = ack_mode_enabled w
      \<and> max_memo_read_packet_size w' = max_memo_read_packet_size w
      \<and> max_memo_write_packet_size w' = max_memo_write_packet_size w
      \<and> max_gdb_send_message_size w' = max_gdb_send_message_size w
      \<and> max_gdb_recv_message_size w' = max_gdb_recv_message_size w
      \<and> parameters w' = parameters w \<and> old_msg_filter w' = old_msg_filter w
      \<and> rtedbg_header w' = rtedbg_header w \<and> p_rtedbg_structure w' = p_rtedbg_structure w)"

lemma same_session_refl [simp]: "same_session w w"
  by (simp add: same_session_def)

lemma same_session_step: "same_session a b \<Longrightarrow> same_session w b = same_session w a"
  by (auto simp: same_session_def)

lemma same_session_upd [simp]:
  "same_session w (w'\<lparr>message_buffer := m\<rparr>) = same_session w w'"
  "same_session w (w'\<lparr>last_gdb_error := e\<rparr>) = same_session w w'"
  "same_session w (w'\<lparr>rx := r\<rparr>) = same_session w w'"
  "same_session w (w'\<lparr>tx := t\<rparr>) = same_session w w'"
  "same_session w (w'\<lparr>srv := s\<rparr>) = same_session w w'"
  by (simp_all add: same_session_def)

lemma ss_sock_recv: "same_session w (snd (sock_recv n w'))  = same_session w w'"
  by (auto simp: sock_recv_def split: list.splits rx_event.splits)

lemma ss_sock_send: "same_session w (snd (sock_send env msg w')) = same_session w w'"
  by (auto simp: sock_send_def split: prod.splits)

lemma ss_gdb_send [simp]: "same_session w (snd (gdb_send env msg w')) = same_session w w'"
  using ss_sock_send [of w env msg w']
  by (auto simp: gdb_send_def split: prod.splits send_status.splits)

lemma ss_gdb_send_ack [simp]: "same_session w (gdb_send_ack env w') = same_session w w'"
  by (simp add: gdb_send_ack_def)

lemma ss_gdb_get_loop [simp]:
  "same_session w (snd (gdb_get_loop env n w')) = same_session w w'"
  apply (induction env n w' rule: gdb_get_loop.induct)
  apply (subst gdb_get_loop.simps)
  subgoal for env n w'
    using ss_sock_recv [of w "TCP_BUFF_LENGTH - n" w']
    by (auto split: prod.splits recv_result.splits simp: Let_def)
  done

lemma ss_gdb_get_message [simp]:
  "same_session w (snd (gdb_get_message env t w')) = same_session w w'"
  by (simp add: gdb_get_message_def)

lemma ss_gdb_flush_socket [simp]:
  "same_session w (gdb_flush_socket w') = same_session w w'"
  apply (induction w' rule: gdb_flush_socket.induct)
  apply (subst gdb_flush_socket.simps)
  subgoal for w'
    using ss_sock_recv [of w 256 w']
    by (auto split: prod.splits recv_result.splits simp: Let_def)
  done

lemma ss_gdb_handle_unexpected_messages [simp]:
  "same_session w (gdb_handle_unexpected_messages w') = same_session w w'"
  apply (induction w' rule: gdb_handle_unexpected_messages.induct)
  apply (subst gdb_handle_unexpected_messages.simps)
  subgoal for w'
    using ss_sock_recv [of w TCP_BUFF_LENGTH w']
    by (auto split: prod.splits recv_result.splits simp: Let_def)
  done

lemma ss_gdb_error_reported [simp]:
  "same_session w (snd (gdb_error_reported w')) = same_session w w'"
  by (simp add: gdb_error_reported_def Let_def split: option.splits)

lemma ss_read_memory_packet [simp]:
  "same_session w (snd (snd (read_memory_packet env buffer address len w'))) = same_session w w'"
  by (simp add: read_memory_packet_def Let_def split_beta)

definition read_chunk :: "'s world \<Rightarrow> nat \<Rightarrow> nat \<Rightarrow> nat" where
  "read_chunk w len data_read =
     (if unat (max_memo_read_packet_size w) < len - data_read
      then unat (max_memo_read_packet_size w) else len - data_read)"

definition write_chunk :: "'s world \<Rightarrow> nat \<Rightarrow> nat \<Rightarrow> nat" where
  "write_chunk w len data_written =
     (if unat (max_memo_write_packet_size w) < len - data_written
      then unat (max_memo_write_packet_size w) else len - data_written)"

lemma gdb_read_loop_unfold:
  "gdb_read_loop env buffer address len data_read w =
     (case read_memory_packet env (drop data_read buffer) (address + of_nat data_read)
             (read_chunk w len data_read) w of
        (res, chunk, w1) \<Rightarrow>
          if res = GDB_OK \<and> data_read + read_chunk w len data_read < len
          then gdb_read_loop env (take data_read buffer @ chunk) address len
                 (data_read + read_chunk w len data_read) w1
          else (res, take data_read buffer @ chunk, w1))"
  apply (subst gdb_read_loop.simps)
  apply (simp only: Let_def read_chunk_def [symmetric])
  apply (simp split: prod.splits)
  done

lemma gdb_read_loop_induct [consumes 0, case_names step]:
  assumes "\<And>env buffer address len data_read w.
     (\<And>chunk w1.
        read_memory_packet env (drop data_read buffer) (address + of_nat data_read)
          (read_chunk w len data_read) w = (GDB_OK, chunk, w1) \<Longrightarrow>
        data_read + read_chunk w len data_read < len \<Longrightarrow>
        P env (take data_read buffer @ chunk) address len
          (data_read + read_chunk w len data_read) w1) \<Longrightarrow>
     P env buffer address len data_read w"
  shows "P env buffer address len data_read w"
proof (induction env buffer address len data_read w rule: gdb_read_loop.induct)
  case (1 env buffer address len data_read w)
  show ?case
  proof (rule assms)
    fix chunk w1
    assume R: "read_memory_packet env (drop data_read buffer) (address + of_nat data_read)
          (read_chunk w len data_read) w = (GDB_OK, chunk, w1)"
      and lt: "data_read + read_chunk w len data_read < len"
    show "P env (take data_read buffer @ chunk) address len
            (data_read + read_chunk w len data_read) w1"
      by (rule "1.IH" [OF refl refl refl R [unfolded read_chunk_def, symmetric] refl refl _ refl
            lt [unfolded read_chunk_def], folded read_chunk_def]) simp
  qed
qed

lemma gdb_write_loop_unfold:
  "gdb_write_loop env buffer address len data_written w =
     (case write_memory_packet env (drop data_written buffer) (address + of_nat data_written)
             (write_chunk w len data_written) w of
        (res, w1) \<Rightarrow>
          if res = GDB_OK \<and> data_written + write_chunk w len data_written < len
          then gdb_write_loop env buffer address len
                 (data_written + write_chunk w len data_written) w1
          else (res, w1))"
  apply (subst gdb_write_loop.simps)
  apply (simp only: Let_def write_chunk_def [symmetric])
  apply (simp split: prod.splits)
  done

lemma gdb_write_loop_induct [consumes 0, case_names step]:
  assumes "\<And>env buffer address len data_written w.
     (\<And>w1.
        write_memory_packet env (drop data_written buffer) (address + of_nat data_written)
          (write_chunk w len data_written) w = (GDB_OK, w1) \<Longrightarrow>
        data_written + write_chunk w len data_written < len \<Longrightarrow>
        P env buffer address len (data_written + write_chunk w len data_written) w1) \<Longrightarrow>
     P env buffer address len data_written w"
  shows "P env buffer address len data_written w"
proof (induction env buffer address len data_written w rule: gdb_write_loop.induct)
  case (1 env buffer address len data_written w)
  show ?case
  proof (rule assms)
    fix w1
    assume R: "write_memory_packet env (drop data_written buffer) (address + of_nat data_written)
          (write_chunk w len data_written) w = (GDB_OK, w1)"
      and lt: "data_written + write_chunk w len data_written < len"
    show "P env buffer address len (data_written + write_chunk w len data_written) w1"
      by (rule "1.IH" [OF refl refl refl R [unfolded write_chunk_def, symmetric] _ refl
            lt [unfolded write_chunk_def], folded write_chunk_def]) simp
  qed
qed

lemma ss_gdb_read_loop [simp]:
  "same_session w (snd (snd (gdb_read_loop env buffer address len data_read w')))
     = same_session w w'"
proof (induction env buffer address len data_read w' rule: gdb_read_loop_induct)
  case (step env buffer address len data_read w')
  obtain res chunk w1 where R:
    "read_memory_packet env (drop data_read buffer) (address + of_nat data_read)
       (read_chunk w' len data_read) w' = (res, chunk, w1)"
    using prod_cases3 by blast
  have "same_session w w1 = same_session w w'"
    using ss_read_memory_packet [of w env "drop data_read buffer" "address + of_nat data_read"
        "read_chunk w' len data_read" w'] R by simp
  then show ?case
    using step R by (subst gdb_read_loop_unfold) auto
qed

lemma ss_gdb_read_memory [simp]:
  "same_session w (snd (snd (gdb_read_memory env buffer address len w'))) = same_session w w'"
  by (simp add: gdb_read_memory_def Let_def)

lemma ss_write_memory_packet [simp]:
  "same_session w (snd (write_memory_packet env buffer address len w')) = same_session w w'"
  by (simp add: write_memory_packet_def Let_def split_beta)

lemma ss_gdb_write_loop [simp]:
  "same_session w (snd (gdb_write_loop env buffer address len data_written w'))
     = same_session w w'"
proof (induction env buffer address len data_written w' rule: gdb_write_loop_induct)
  case (step env buffer address len data_written w')
  obtain res w1 where R:
    "write_memory_packet env (drop data_written buffer) (address + of_nat data_written)
       (write_chunk w' len data_written) w' = (res, w1)"
    by fastforce
  have "same_session w w1 = same_session w w'"
    using ss_write_memory_packet [of w env "drop data_written buffer"
        "address + of_nat data_written" "write_chunk w' len data_written" w'] R by simp
  then show ?case
    using step R by (subst gdb_write_loop_unfold) auto
qed

lemma ss_gdb_write_memory [simp]:
  "same_session w (snd (gdb_write_memory env buffer address len w')) = same_session w w'"
  by (simp add: gdb_write_memory_def Let_def)


section \<open>Properties\<close>

subsection \<open>The hex byte codec\<close>

lemma nibble_cases:
  "k < 16 \<Longrightarrow> k = 0 \<or> k = 1 \<or> k = 2 \<or> k = 3 \<or> k = 4 \<or> k = 5 \<or> k = 6 \<or> k = 7 \<or> k = 8
     \<or> k = 9 \<or> k = 10 \<or> k = 11 \<or> k = 12 \<or> k = 13 \<or> k = 14 \<or> k = (15::nat)"
  by arith

lemma hex_loop_upper:
  "k < 16 \<Longrightarrow> hex_loop (Suc j) acc (upper_digits ! k # r) = hex_loop j (acc * 16 + int k) r"
  by (drule nibble_cases) (auto simp: upper_digits_def buf_at_def)

lemma hex_loop_lower:
  "k < 16 \<Longrightarrow> hex_loop (Suc j) acc (lower_digits ! k # r) = hex_loop j (acc * 16 + int k) r"
  by (drule nibble_cases) (auto simp: lower_digits_def buf_at_def)

lemma hex_of_byte: "n < 256 \<Longrightarrow> hex_of ds n = (if n < 16 then [ds ! n] else [ds ! (n div 16), ds ! (n mod 16)])"
  by (subst hex_of.simps, subst hex_of.simps) auto

lemma printf_hex_2: "n < 256 \<Longrightarrow> printf_hex ds 2 n = [(if n < 16 then CHR ''0'' else ds ! (n div 16)), ds ! (n mod 16)]"
  by (auto simp: printf_hex_def hex_of_byte Let_def numeral_2_eq_2)

lemma get_hex_digit_Some: "get_hex_digit (Some s) = hex_loop (Suc (Suc 0)) 0 s"
  by (simp add: get_hex_digit_def numeral_2_eq_2)

lemma get_hex_digit_upper:
  assumes "n < 256"
  shows "get_hex_digit (Some (printf_hex upper_digits 2 n @ r)) = int n"
proof -
  have z: "CHR ''0'' = upper_digits ! 0" by (simp add: upper_digits_def)
  have hi: "n div 16 < 16" and lo: "n mod 16 < 16" using assms by auto
  show ?thesis
  proof (cases "n < 16")
    case True
    then show ?thesis
      using assms
      by (simp add: printf_hex_2 get_hex_digit_Some z hex_loop_upper del: hex_loop.simps(2))
  next
    case False
    then show ?thesis
      using assms hi lo
      by (simp add: printf_hex_2 get_hex_digit_Some hex_loop_upper del: hex_loop.simps(2))
         presburger
  qed
qed

lemma get_hex_digit_lower:
  assumes "n < 256"
  shows "get_hex_digit (Some (printf_hex lower_digits 2 n @ r)) = int n"
proof -
  have z: "CHR ''0'' = lower_digits ! 0" by (simp add: lower_digits_def)
  have hi: "n div 16 < 16" and lo: "n mod 16 < 16" using assms by auto
  show ?thesis
  proof (cases "n < 16")
    case True
    then show ?thesis
      using assms
      by (simp add: printf_hex_2 get_hex_digit_Some z hex_loop_lower del: hex_loop.simps(2))
  next
    case False
    then show ?thesis
      using assms hi lo
      by (simp add: printf_hex_2 get_hex_digit_Some hex_loop_lower del: hex_loop.simps(2))
         presburger
  qed
qed

lemma get_hex_digit_pair:
  "get_hex_digit (Some (c1 # c2 # r)) =
     (if is_hex c1 \<and> is_hex c2 then hex_char_value c1 * 16 + hex_char_value c2 else - 1)"
  by (simp add: get_hex_digit_Some buf_at_def is_hex_def hex_char_value_def Let_def)

lemma get_hex_digit_short:
  "get_hex_digit None = - 1" "get_hex_digit (Some []) = - 1"
  "get_hex_digit (Some [c]) = - 1"
proof -
  show "get_hex_digit None = - 1" by (simp add: get_hex_digit_def)
  show "get_hex_digit (Some []) = - 1"
    by (simp add: get_hex_digit_Some buf_at_def Let_def NUL_def)
  show "get_hex_digit (Some [c]) = - 1"
    by (simp add: get_hex_digit_Some buf_at_def Let_def NUL_def)
qed

text \<open>
  C9. The two-character hex codec round-trips: for every byte \<open>b\<close>, decoding the two
  hex digits that \<open>%02X\<close> (as \<open>write_memory_packet\<close> prints a byte) or \<open>%02x\<close> gives
  for \<open>b\<close> with \<open>get_hex_digit\<close> returns \<open>b\<close>. Decoding any pair of characters in which
  the first or the second is not a hex digit returns \<open>-1\<close>, and so does a string that
  ends before its second character; a pair of hex digits decodes to
  \<open>16 * value of the first + value of the second\<close>. In particular \<open>GZ\<close>, \<open>0G\<close> and
  \<open>G0\<close> return \<open>-1\<close>.
\<close>

theorem get_hex_digit_roundtrip:
  "get_hex_digit (Some (printf_hex upper_digits 2 (unat (b :: byte)))) = int (unat b)
   \<and> get_hex_digit (Some (printf_hex lower_digits 2 (unat b))) = int (unat b)
   \<and> get_hex_digit (Some (c1 # c2 # r)) =
        (if is_hex c1 \<and> is_hex c2 then hex_char_value c1 * 16 + hex_char_value c2 else - 1)
   \<and> (\<not> is_hex c1 \<or> \<not> is_hex c2 \<longrightarrow> get_hex_digit (Some (c1 # c2 # r)) = - 1)
   \<and> get_hex_digit (Some [c1]) = - 1
   \<and> get_hex_digit (Some []) = - 1
   \<and> get_hex_digit None = - 1
   \<and> get_hex_digit (Some ''GZ'') = - 1"
proof -
  have b: "unat b < 256" using unsigned_less [of b] by simp
  have "get_hex_digit (Some ''GZ'') = - 1"
    by (simp add: get_hex_digit_Some buf_at_def)
  then show ?thesis
    using get_hex_digit_upper [OF b, of "[]"] get_hex_digit_lower [OF b, of "[]"]
      get_hex_digit_pair [of c1 c2 r] get_hex_digit_short(1) get_hex_digit_short(2)
      get_hex_digit_short(3) [of c1]
    by simp
qed

text \<open>The error half at pairs whose second, or whose first, character is not a hex digit,
  and the round trip at the byte \<open>0xAB\<close>.\<close>

theorem get_hex_digit_roundtrip_witness:
  "get_hex_digit (Some ''0G'') = - 1 \<and> get_hex_digit (Some ''G0'') = - 1
   \<and> get_hex_digit (Some ''1:'') = - 1
   \<and> get_hex_digit (Some (printf_hex upper_digits 2 (unat (0xAB :: byte)))) = 171"
proof -
  have a: "\<not> is_hex CHR ''0'' \<or> \<not> is_hex CHR ''G''" by (simp add: is_hex_def)
  have b: "\<not> is_hex CHR ''G'' \<or> \<not> is_hex CHR ''0''" by (simp add: is_hex_def)
  have c: "\<not> is_hex CHR ''1'' \<or> \<not> is_hex CHR '':''" by (simp add: is_hex_def)
  show ?thesis
    using a b c get_hex_digit_roundtrip [of "0xAB" "CHR ''0''" "CHR ''G''" "[]"]
      get_hex_digit_roundtrip [of "0xAB" "CHR ''G''" "CHR ''0''" "[]"]
      get_hex_digit_roundtrip [of "0xAB" "CHR ''1''" "CHR '':''" "[]"]
    by simp
qed

subsection \<open>The capabilities of the server\<close>

lemma parse_capability_1000:
  fixes w :: "'s world" and cc :: string
  defines "w' \<equiv> snd (parse_capability_data (''$QStartNoAckMode+;PacketSize=1000#'' @ cc)
                     (w\<lparr>parameters := (parameters w)\<lparr>max_message_size := 0\<rparr>\<rparr>))"
  shows "max_gdb_send_message_size w' = 0x1000"
    and "max_gdb_recv_message_size w' = 0x1000"
    and "max_memo_read_packet_size w' = 2044"
    and "max_memo_write_packet_size w' = 2036"
  unfolding w'_def
  by (simp_all add: parse_capability_data_def cstr_def NUL_def sscanf_x_def scan_number_def
      isspace_def strip_sign_def strip_0x_def is_digit_in_def digit_value_def digits_value_def
      Let_def calculate_max_message_sizes_def DEFAULT_MESSAGE_SIZE_def TCP_BUFF_LENGTH_def)

lemma parse_capability_formulas:
  "parse_capability_data recvbuf w = (GDB_OK, w') \<Longrightarrow>
     max_memo_read_packet_size w' = ((max_gdb_recv_message_size w' - 4) div 8) * 4
     \<and> max_memo_write_packet_size w' = ((max_gdb_send_message_size w' - 16 - 4) div 8) * 4"
  by (auto simp: parse_capability_data_def calculate_max_message_sizes_def Let_def
      split: if_splits option.splits)

text \<open>
  C3, as the code has it. After parsing a \<open>qSupported\<close> response that holds
  \<open>QStartNoAckMode+;PacketSize=1000\<close>, with no \<open>-msgsize\<close> given, \<open>max_send_packet\<close> is
  \<open>0x1000\<close>, the chunk sizes are
  \<open>max_memo_read = floor((max_recv_packet - 4) / 8) * 4 = 2044\<close> and
  \<open>max_memo_write = floor((max_send_packet - 16 - 4) / 8) * 4 = 2036\<close>
  (not 2028: \<open>(4096 - 20) div 8 = 509\<close>).
\<close>

theorem capability_packet_size_1000:
  "(let r = parse_capability_data (''$QStartNoAckMode+;PacketSize=1000#'' @ cc)
              (w\<lparr>parameters := (parameters w)\<lparr>max_message_size := 0\<rparr>\<rparr>)
    in fst r = GDB_OK
       \<and> max_gdb_send_message_size (snd r) = 0x1000
       \<and> max_memo_read_packet_size (snd r) = ((max_gdb_recv_message_size (snd r) - 4) div 8) * 4
       \<and> max_memo_read_packet_size (snd r) = 2044
       \<and> max_memo_write_packet_size (snd r)
           = ((max_gdb_send_message_size (snd r) - 16 - 4) div 8) * 4
       \<and> max_memo_write_packet_size (snd r) = 2036)"
proof -
  define r where "r = parse_capability_data (''$QStartNoAckMode+;PacketSize=1000#'' @ cc)
                        (w\<lparr>parameters := (parameters w)\<lparr>max_message_size := 0\<rparr>\<rparr>)"
  have ok: "fst r = GDB_OK"
    unfolding r_def by (simp add: parse_capability_data_def cstr_def NUL_def Let_def)
  then have "r = (GDB_OK, snd r)" by (cases r) simp
  from parse_capability_formulas [OF this [unfolded r_def], folded r_def] ok
    parse_capability_1000 [of cc w, folded r_def]
  show ?thesis unfolding Let_def r_def [symmetric] by simp
qed

text \<open>C3 as stated fails: the write chunk size is not 2028.\<close>

theorem capability_write_size_counterexample:
  "\<not> (max_gdb_send_message_size
         (snd (parse_capability_data ''$QStartNoAckMode+;PacketSize=1000#07'' demo_world)) = 0x1000
      \<and> max_memo_read_packet_size
         (snd (parse_capability_data ''$QStartNoAckMode+;PacketSize=1000#07'' demo_world)) = 2044
      \<and> max_memo_write_packet_size
         (snd (parse_capability_data ''$QStartNoAckMode+;PacketSize=1000#07'' demo_world)) = 2028)"
proof -
  have "max_memo_write_packet_size
         (snd (parse_capability_data ''$QStartNoAckMode+;PacketSize=1000#07'' demo_world)) = 2036"
    by (simp add: parse_capability_data_def cstr_def NUL_def sscanf_x_def scan_number_def
      isspace_def strip_sign_def strip_0x_def is_digit_in_def digit_value_def digits_value_def
      Let_def calculate_max_message_sizes_def DEFAULT_MESSAGE_SIZE_def TCP_BUFF_LENGTH_def
      demo_world_def demo_parameters_def)
  then show ?thesis by simp
qed

section \<open>The transfer against the memory server\<close>

subsection \<open>Hex numbers\<close>

lemma digit_value_lower: "k < 16 \<Longrightarrow> digit_value (lower_digits ! k) = Some k"
  by (drule nibble_cases) (auto simp: lower_digits_def digit_value_def)

lemma digit_value_upper: "k < 16 \<Longrightarrow> digit_value (upper_digits ! k) = Some k"
  by (drule nibble_cases) (auto simp: upper_digits_def digit_value_def)

lemma digit_value_digits:
  "ds = lower_digits \<or> ds = upper_digits \<Longrightarrow> k < 16 \<Longrightarrow> digit_value (ds ! k) = Some k"
  using digit_value_lower digit_value_upper by blast

lemma length_digits: "ds = lower_digits \<or> ds = upper_digits \<Longrightarrow> length ds = 16"
  by (auto simp: lower_digits_def upper_digits_def)

lemma zero_digits: "ds = lower_digits \<or> ds = upper_digits \<Longrightarrow> ds ! 0 = CHR ''0''"
  by (auto simp: lower_digits_def upper_digits_def)

lemma digits_value_snoc:
  "digits_value b (xs @ [c]) = digits_value b xs * b + the (digit_value c)"
  by (simp add: digits_value_def)

lemma hex_of_props:
  assumes ds: "ds = lower_digits \<or> ds = upper_digits"
  shows "digits_value 16 (hex_of ds n) = n \<and> set (hex_of ds n) \<subseteq> set ds \<and> hex_of ds n \<noteq> []"
proof (induction n rule: less_induct)
  case (less n)
  show ?case
  proof (cases "n < 16")
    case True
    then show ?thesis
      using digit_value_digits [OF ds, of n] length_digits [OF ds]
      by (subst (1 2 3) hex_of.simps) (simp add: digits_value_def)
  next
    case False
    then have "n div 16 < n" by simp
    from less [OF this] False
    show ?thesis
      using digit_value_digits [OF ds, of "n mod 16"] length_digits [OF ds]
      by (subst (1 2 3) hex_of.simps) (simp add: digits_value_snoc)
  qed
qed



lemma printf_hex_set:
  assumes "ds = lower_digits \<or> ds = upper_digits"
  shows "set (printf_hex ds width n) \<subseteq> set ds"
proof -
  have "CHR ''0'' \<in> set ds" using assms by (auto simp: lower_digits_def upper_digits_def)
  then show ?thesis
    using hex_of_props [OF assms, of n] by (auto simp: printf_hex_def Let_def)
qed




lemma printf_hex_byte:
  assumes "ds = lower_digits \<or> ds = upper_digits" and "n < 256"
  shows "printf_hex ds 2 n = [ds ! (n div 16), ds ! (n mod 16)]"
  using assms(2) zero_digits [OF assms(1)] by (simp add: printf_hex_2)


lemma checksum_lt [simp]: "checksum s < 256"
  by (simp add: checksum_def)


lemma notin_printf_lower:
  "c \<notin> set lower_digits \<Longrightarrow> c \<notin> set (printf_hex lower_digits width n)"
  using printf_hex_set [of lower_digits width n] by auto

lemma notin_printf_upper:
  "c \<notin> set upper_digits \<Longrightarrow> c \<notin> set (printf_hex upper_digits width n)"
  using printf_hex_set [of upper_digits width n] by auto

lemma printf_lower_notin [simp]:
  "CHR ''#'' \<notin> set (printf_hex lower_digits width n)"
  "CHR '','' \<notin> set (printf_hex lower_digits width n)"
  "CHR '':'' \<notin> set (printf_hex lower_digits width n)"
  "CHR ''*'' \<notin> set (printf_hex lower_digits width n)"
  "CHR ''$'' \<notin> set (printf_hex lower_digits width n)"
  "CHR ''E'' \<notin> set (printf_hex lower_digits width n)"
  "NUL \<notin> set (printf_hex lower_digits width n)"
  by (rule notin_printf_lower, simp add: lower_digits_def NUL_def)+

lemma printf_upper_notin [simp]:
  "CHR ''#'' \<notin> set (printf_hex upper_digits width n)"
  "CHR '','' \<notin> set (printf_hex upper_digits width n)"
  "CHR '':'' \<notin> set (printf_hex upper_digits width n)"
  "CHR ''$'' \<notin> set (printf_hex upper_digits width n)"
  "NUL \<notin> set (printf_hex upper_digits width n)"
  by (rule notin_printf_upper, simp add: upper_digits_def NUL_def)+






lemma unat_byte_lt: "unat (b :: byte) < 256"
proof -
  have "unat b < 2 ^ LENGTH(8)" by (rule unsigned_less)
  then show ?thesis by simp
qed

lemma NUL_neq [simp]:
  "NUL \<noteq> CHR ''$''" "NUL \<noteq> CHR ''#''" "CHR ''$'' \<noteq> NUL" "CHR ''#'' \<noteq> NUL"
  by (simp_all add: NUL_def)

lemma length_printf_byte [simp]:
  "length (printf_hex lower_digits 2 (unat (b :: byte))) = 2"
  "length (printf_hex upper_digits 2 (unat (b :: byte))) = 2"
  by (simp_all add: printf_hex_byte unat_byte_lt)

lemma length_printf_checksum [simp]:
  "length (printf_hex lower_digits 2 (checksum s)) = 2"
  "length (printf_hex upper_digits 2 (checksum s)) = 2"
  by (simp_all add: printf_hex_byte)

lemma hex_dump_Cons: "hex_dump (b # bs) = printf_hex lower_digits 2 (unat b) @ hex_dump bs"
  by (simp add: hex_dump_def)

lemma hex_dump_Nil [simp]: "hex_dump [] = []"
  by (simp add: hex_dump_def)

lemma length_hex_dump [simp]: "length (hex_dump bs) = 2 * length bs"
  by (induction bs) (simp_all add: hex_dump_Cons)





lemma mem_read_length [simp]: "length (mem_read m a n) = n"
  by (simp add: mem_read_def)

lemma read_request_ne [simp]: "read_request a len \<noteq> []" "read_request a len \<noteq> ''+''"
  by (simp_all add: read_request_def Let_def)







subsection \<open>Chunked reads\<close>







section \<open>The packets a function sends\<close>

lemma packets_upd [simp]:
  "packets (w\<lparr>message_buffer := m\<rparr>) = packets w"
  "packets (w\<lparr>last_gdb_error := e\<rparr>) = packets w"
  "packets (w\<lparr>rx := r\<rparr>) = packets w"
  "packets (w\<lparr>srv := s\<rparr>) = packets w"
  "packets (w\<lparr>ack_mode_enabled := b\<rparr>) = packets w"
  "packets (w\<lparr>parameters := p\<rparr>) = packets w"
  "packets (w\<lparr>old_msg_filter := f\<rparr>) = packets w"
  "packets (w\<lparr>rtedbg_header := h\<rparr>) = packets w"
  "packets (w\<lparr>p_rtedbg_structure := ps\<rparr>) = packets w"
  "packets (w\<lparr>bin_files := bf\<rparr>) = packets w"
  "packets (w\<lparr>max_gdb_send_message_size := n1\<rparr>) = packets w"
  "packets (w\<lparr>max_gdb_recv_message_size := n2\<rparr>) = packets w"
  "packets (w\<lparr>max_memo_read_packet_size := n3\<rparr>) = packets w"
  "packets (w\<lparr>max_memo_write_packet_size := n4\<rparr>) = packets w"
  by (simp_all add: packets_def)

lemma pk_sock_recv: "packets (snd (sock_recv n w)) = packets w"
  by (auto simp: sock_recv_def split: list.splits rx_event.splits)

lemma pk_sock_send:
  "packets (snd (sock_send env msg w)) = (if msg = ''+'' then packets w else packets w @ [msg])"
  by (auto simp: sock_send_def packets_def split: prod.splits)

lemma pk_gdb_send [simp]:
  "packets (snd (gdb_send env msg w)) =
     (if msg = [] \<or> msg = ''+'' then packets w else packets w @ [msg])"
  using pk_sock_send [of env msg w]
  by (auto simp: gdb_send_def split: prod.splits send_status.splits)

lemma pk_gdb_send_ack [simp]: "packets (gdb_send_ack env w) = packets w"
  by (simp add: gdb_send_ack_def)

lemma pk_gdb_get_loop [simp]: "packets (snd (gdb_get_loop env n w)) = packets w"
  apply (induction env n w rule: gdb_get_loop.induct)
  apply (subst gdb_get_loop.simps)
  subgoal for env n w
    using pk_sock_recv [of "TCP_BUFF_LENGTH - n" w]
    by (auto split: prod.splits recv_result.splits simp: Let_def)
  done

lemma pk_gdb_get_message [simp]: "packets (snd (gdb_get_message env t w)) = packets w"
  by (simp add: gdb_get_message_def)

lemma pk_gdb_flush_socket [simp]: "packets (gdb_flush_socket w) = packets w"
  apply (induction w rule: gdb_flush_socket.induct)
  apply (subst gdb_flush_socket.simps)
  subgoal for w
    using pk_sock_recv [of 256 w]
    by (auto split: prod.splits recv_result.splits simp: Let_def)
  done

lemma pk_gdb_handle_unexpected_messages [simp]:
  "packets (gdb_handle_unexpected_messages w) = packets w"
  apply (induction w rule: gdb_handle_unexpected_messages.induct)
  apply (subst gdb_handle_unexpected_messages.simps)
  subgoal for w
    using pk_sock_recv [of TCP_BUFF_LENGTH w]
    by (auto split: prod.splits recv_result.splits simp: Let_def)
  done

lemma pk_gdb_check_ack [simp]: "packets (gdb_check_ack w) = packets w"
  apply (induction w rule: gdb_check_ack.induct)
  apply (subst gdb_check_ack.simps)
  subgoal for w
    using pk_sock_recv [of 1 "w\<lparr>message_buffer := poke 0 NUL (message_buffer w)\<rparr>"]
    by (auto split: prod.splits recv_result.splits simp: Let_def)
  done

lemma pk_gdb_error_reported [simp]: "packets (snd (gdb_error_reported w)) = packets w"
  by (simp add: gdb_error_reported_def Let_def split: option.splits)

lemma pk_read_memory_packet:
  "packets (snd (snd (read_memory_packet env buffer a len w))) =
     (if (len * 2 + 4) mod 2 ^ 32 > TCP_BUFF_LENGTH \<or> len = 0 then packets w
      else packets w @ [read_request a len])"
  by (simp add: read_memory_packet_def Let_def split_beta)

definition command_frame :: "string \<Rightarrow> string" where
  "command_frame command =
     ''$'' @ command @ ''#'' @ printf_hex upper_digits 2 (checksum command)"

lemma pk_gdb_send_command:
  "packets (snd (gdb_send_command env command w)) =
     (if length command \<ge> 1020 then packets w else packets w @ [command_frame command])"
  by (simp add: gdb_send_command_def Let_def command_frame_def)


lemma length_hex_of: "n < 16 ^ k \<Longrightarrow> 0 < k \<Longrightarrow> length (hex_of ds n) \<le> k"
proof (induction n arbitrary: k rule: less_induct)
  case (less n)
  show ?case
  proof (cases "n < 16")
    case True
    then show ?thesis using less.prems by (subst hex_of.simps) simp
  next
    case False
    then obtain j where k: "k = Suc j" "0 < j"
      using less.prems by (cases k; cases "k - 1") auto
    have "n div 16 < 16 ^ j" using less.prems k by (simp add: less_mult_imp_div_less mult.commute)
    then have "length (hex_of ds (n div 16)) \<le> j"
      using less.IH [of "n div 16" j] False k by simp
    then show ?thesis using False k by (subst hex_of.simps) simp
  qed
qed

lemma length_printf_hex: "n < 16 ^ k \<Longrightarrow> 0 < k \<Longrightarrow> length (printf_hex ds k n) = k"
  using length_hex_of [of n k ds] by (simp add: printf_hex_def Let_def)

definition upper_dump :: "byte list \<Rightarrow> string" where
  "upper_dump bs = concat (map (\<lambda>b. printf_hex upper_digits 2 (unat b)) bs)"

lemma length_upper_dump [simp]: "length (upper_dump bs) = 2 * length bs"
  by (induction bs) (simp_all add: upper_dump_def)

definition write_payload :: "u32 \<Rightarrow> byte list \<Rightarrow> string" where
  "write_payload a bs =
     ''M'' @ printf_hex upper_digits 8 (unat a) @ '','' @
     printf_hex upper_digits 4 (length bs) @ '':'' @ upper_dump bs"

definition write_frame :: "u32 \<Rightarrow> byte list \<Rightarrow> string" where
  "write_frame a bs =
     ''$'' @ write_payload a bs @ ''#'' @ printf_hex upper_digits 2 (checksum (write_payload a bs))"

lemma length_printf_address [simp]: "length (printf_hex ds 8 (unat (a :: u32))) = 8"
proof -
  have "unat a < 2 ^ 32" using unsigned_less [of a] by simp
  then show ?thesis by (intro length_printf_hex) simp_all
qed

lemma length_write_payload:
  "length bs < 65536 \<Longrightarrow> length (write_payload a bs) = 15 + 2 * length bs"
  by (simp add: write_payload_def length_printf_hex)

lemma write_request_frame:
  assumes "len < 65536" "len \<le> length buffer"
  shows "take (1 + (15 + 2 * len) + 3) (write_request mb buffer a len)
           = write_frame a (take len buffer)"
proof -
  define hdr where "hdr = ''$M'' @ printf_hex upper_digits 8 (unat a) @ '','' @
                  printf_hex upper_digits 4 len @ '':''"
  define hexdata where "hexdata = upper_dump (take len buffer)"
  have lh: "length hdr = 16" using assms by (simp add: hdr_def length_printf_hex)
  have ld: "length hexdata = 2 * len" using assms by (simp add: hexdata_def)
  have pl: "''$'' @ write_payload a (take len buffer) = hdr @ hexdata"
    using assms by (simp add: write_payload_def hdr_def hexdata_def min_def)
  define mb1 where "mb1 = store_str hdr mb"
  define mb2 where "mb2 = write_at 16 (hexdata @ [NUL]) mb1"
  have m1: "take 16 mb1 = hdr" using lh by (simp add: mb1_def store_str_def)
  have l1: "16 \<le> length mb1" using lh by (simp add: mb1_def store_str_def)
  have m2: "mb2 = hdr @ hexdata @ NUL # drop (17 + 2 * len) mb1"
    using m1 l1 ld by (simp add: mb2_def write_at_def)
  have sum: "take (15 + 2 * len) (drop 1 mb2) = write_payload a (take len buffer)"
  proof -
    have "drop 1 mb2 = drop 1 (hdr @ hexdata) @ NUL # drop (17 + 2 * len) mb1"
      using lh by (simp add: m2)
    also have "drop 1 (hdr @ hexdata) = write_payload a (take len buffer)"
      by (simp add: pl [symmetric])
    finally show ?thesis using length_write_payload [of "take len buffer" a] assms
      by (simp add: min_def)
  qed
  have t2: "take (16 + 2 * len) mb2 = hdr @ hexdata" using lh ld by (simp add: m2)
  have l2: "16 + 2 * len \<le> length mb2" using lh ld by (simp add: m2)
  have lp: "length (write_payload a (take len buffer)) = 15 + 2 * len"
    using length_write_payload [of "take len buffer" a] assms by (simp add: min_def)
  have lf: "length (write_frame a (take len buffer)) = 1 + (15 + 2 * len) + 3"
    by (simp add: write_frame_def lp)
  have "write_request mb buffer a len =
      write_at (1 + (15 + 2 * len))
        (''#'' @ printf_hex upper_digits 2 (checksum (write_payload a (take len buffer))) @ [NUL])
        mb2"
    unfolding write_request_def Let_def
    by (simp only: hdr_def [symmetric] hexdata_def [symmetric] upper_dump_def [symmetric]
        mb1_def [symmetric] mb2_def [symmetric] sum)
  also have "\<dots> = write_frame a (take len buffer) @ NUL # drop (20 + 2 * len) mb2"
    using t2 l2 by (simp add: write_at_def write_frame_def pl [symmetric])
  finally have "take (length (write_frame a (take len buffer))) (write_request mb buffer a len)
      = write_frame a (take len buffer)"
    by simp
  then show ?thesis by (simp only: lf)
qed

lemma write_frame_ne [simp]: "write_frame a bs \<noteq> []" "write_frame a bs \<noteq> ''+''"
  by (simp_all add: write_frame_def)

lemma pk_write_memory_packet:
  assumes "len < 65536" "len \<le> length buffer"
  shows "packets (snd (write_memory_packet env buffer a len w)) =
     (if (len * 2 + 16 + 4) mod 2 ^ 32 > TCP_BUFF_LENGTH \<or> len = 0 then packets w
      else packets w @ [write_frame a (take len buffer)])"
  using write_request_frame [OF assms, of "message_buffer w" a]
  by (simp add: write_memory_packet_def Let_def split_beta)

subsection \<open>The checksum of the frames sent\<close>

text \<open>A frame closes with the checksum in the digits \<open>digits\<close> when it is \<open>$\<close>, a
  payload, \<open>#\<close> and the two digits that \<open>%02x\<close> (or \<open>%02X\<close>) prints for the sum of
  the payload's characters modulo 256.\<close>

definition frame_payload :: "string \<Rightarrow> string" where
  "frame_payload f = take (length f - 4) (drop 1 f)"

definition closes_with_checksum :: "string \<Rightarrow> string \<Rightarrow> bool" where
  "closes_with_checksum digits f =
     (4 \<le> length f \<and>
      f = ''$'' @ frame_payload f @ ''#'' @ printf_hex digits 2 (checksum (frame_payload f)))"

lemma closes_with_checksum_frame:
  assumes "ds = lower_digits \<or> ds = upper_digits"
  shows "closes_with_checksum ds (''$'' @ p @ ''#'' @ printf_hex ds 2 (checksum p))"
proof -
  have l: "length (printf_hex ds 2 (checksum p)) = 2"
    using assms by (auto simp: printf_hex_byte)
  then have "frame_payload (''$'' @ p @ ''#'' @ printf_hex ds 2 (checksum p)) = p"
    by (simp add: frame_payload_def)
  then show ?thesis using l by (simp add: closes_with_checksum_def)
qed

lemma read_request_closes: "closes_with_checksum lower_digits (read_request a len)"
  using closes_with_checksum_frame [of lower_digits
      "''m'' @ printf_hex lower_digits 8 (unat a) @ '','' @ printf_hex lower_digits 2 len"]
  by (simp add: read_request_def Let_def)

lemma command_frame_closes: "closes_with_checksum upper_digits (command_frame command)"
  using closes_with_checksum_frame [of upper_digits command] by (simp add: command_frame_def)

lemma write_frame_closes: "closes_with_checksum upper_digits (write_frame a bs)"
  using closes_with_checksum_frame [of upper_digits "write_payload a bs"]
  by (simp add: write_frame_def)

text \<open>Claim C6, as the code has it. Every frame handed to \<open>send\<close> by
  \<open>read_memory_packet\<close>, \<open>write_memory_packet\<close> and \<open>gdb_send_command\<close> ends with \<open>#\<close>
  and two hexadecimal digits that encode the sum of the payload's characters modulo 256.
  The digits are lower-case in the memory-read request (\<open>#%02x\<close>) and upper-case in the
  memory-write request and in the command packet (\<open>#%02X\<close>). Each of the three
  functions sends at most one frame, and none when it rejects its arguments.\<close>

theorem emitted_frames_checksum:
  "packets (snd (snd (read_memory_packet env buffer a len w))) =
     (if (len * 2 + 4) mod 2 ^ 32 > TCP_BUFF_LENGTH \<or> len = 0 then packets w
      else packets w @ [read_request a len])
   \<and> closes_with_checksum lower_digits (read_request a len)
   \<and> packets (snd (gdb_send_command env command w)) =
       (if length command \<ge> 1020 then packets w
        else packets w @ [''$'' @ command @ ''#'' @ printf_hex upper_digits 2 (checksum command)])
   \<and> closes_with_checksum upper_digits
        (''$'' @ command @ ''#'' @ printf_hex upper_digits 2 (checksum command))
   \<and> (len < 65536 \<and> len \<le> length buffer \<longrightarrow>
        packets (snd (write_memory_packet env buffer a len w)) =
          (if (len * 2 + 16 + 4) mod 2 ^ 32 > TCP_BUFF_LENGTH \<or> len = 0 then packets w
           else packets w @ [write_frame a (take len buffer)])
        \<and> closes_with_checksum upper_digits (write_frame a (take len buffer)))"
  using pk_read_memory_packet [of env buffer a len w] read_request_closes [of a len]
    pk_gdb_send_command [of env command w] command_frame_closes [of command]
    pk_write_memory_packet [of len buffer env a w] write_frame_closes [of a "take len buffer"]
  by (simp add: command_frame_def)

lemma replicate_numeral_Cons: "replicate (numeral k) x = x # replicate (pred_numeral k) x"
  by (simp add: numeral_eq_Suc)

lemma write_frame_demo:
  "write_frame 0x24000004 [0x0F, 0, 0, 0] = ''$M24000004,0004:0F000000#97''"
  by (simp add: write_frame_def write_payload_def upper_dump_def printf_hex_def hex_of.simps
      upper_digits_def checksum_def Let_def replicate_numeral_Cons)

lemma read_request_demo: "read_request 0x24000004 4 = ''$m24000004,04#87''"
  by (simp add: read_request_def printf_hex_def hex_of.simps lower_digits_def checksum_def Let_def
      replicate_numeral_Cons)

lemma command_frame_demo: "command_frame ''QStartNoAckMode'' = ''$QStartNoAckMode#B0''"
  by (simp add: command_frame_def printf_hex_def hex_of.simps upper_digits_def checksum_def
      Let_def replicate_numeral_Cons)

theorem emitted_frames_checksum_witness:
  "packets (snd (snd (read_memory_packet memory_server [0, 0, 0, 0] 0x24000004 4 demo_world)))
     = [''$m24000004,04#87'']
   \<and> closes_with_checksum lower_digits ''$m24000004,04#87''
   \<and> packets (snd (gdb_send_command memory_server ''QStartNoAckMode'' demo_world))
       = [''$QStartNoAckMode#B0'']
   \<and> closes_with_checksum upper_digits ''$QStartNoAckMode#B0''
   \<and> packets (snd (write_memory_packet memory_server [0x0F, 0, 0, 0] 0x24000004 4 demo_world))
       = [''$M24000004,0004:0F000000#97'']
   \<and> closes_with_checksum upper_digits ''$M24000004,0004:0F000000#97''"
proof -
  have p: "packets demo_world = []" by (simp add: packets_def demo_world_def)
  have c: "printf_hex upper_digits 2 (checksum ''QStartNoAckMode'') = ''B0''"
    using command_frame_demo by (simp add: command_frame_def)
  have r: "packets (snd (snd (read_memory_packet memory_server [0, 0, 0, 0] 0x24000004 4
             demo_world))) = [''$m24000004,04#87'']
     \<and> closes_with_checksum lower_digits ''$m24000004,04#87''"
    using emitted_frames_checksum [of memory_server "[0, 0, 0, 0]" "0x24000004" 4 demo_world
        "''QStartNoAckMode''"]
    by (simp add: p read_request_demo TCP_BUFF_LENGTH_def)
  have s: "packets (snd (gdb_send_command memory_server ''QStartNoAckMode'' demo_world))
       = [''$QStartNoAckMode#B0'']
     \<and> closes_with_checksum upper_digits ''$QStartNoAckMode#B0''"
    using emitted_frames_checksum [of memory_server "[0, 0, 0, 0]" "0x24000004" 4 demo_world
        "''QStartNoAckMode''"]
    by (simp add: p c)
  have w: "packets (snd (write_memory_packet memory_server [0x0F, 0, 0, 0] 0x24000004 4
             demo_world)) = [''$M24000004,0004:0F000000#97'']
     \<and> closes_with_checksum upper_digits ''$M24000004,0004:0F000000#97''"
    using emitted_frames_checksum [of memory_server "[0x0F, 0, 0, 0]" "0x24000004" 4 demo_world
        "''QStartNoAckMode''"]
    by (simp add: p write_frame_demo TCP_BUFF_LENGTH_def)
  from r s w show ?thesis by simp
qed

text \<open>The command packet \<open>QStartNoAckMode\<close> has the checksum \<open>0xb0\<close>; what
  \<open>gdb_send_command\<close> sends ends with \<open>#B0\<close>, which is not the two lower-case digits
  \<open>b0\<close>.\<close>

theorem command_checksum_counterexample:
  "packets (snd (gdb_send_command memory_server ''QStartNoAckMode'' demo_world))
     = [''$QStartNoAckMode#B0'']
   \<and> checksum ''QStartNoAckMode'' = 0xb0
   \<and> printf_hex lower_digits 2 (checksum ''QStartNoAckMode'') = ''b0''
   \<and> \<not> closes_with_checksum lower_digits ''$QStartNoAckMode#B0''
   \<and> CHR ''B'' \<notin> set lower_digits"
proof -
  have p: "packets demo_world = []" by (simp add: packets_def demo_world_def)
  have 1: "packets (snd (gdb_send_command memory_server ''QStartNoAckMode'' demo_world))
     = [''$QStartNoAckMode#B0'']"
    using pk_gdb_send_command [of memory_server "''QStartNoAckMode''" demo_world]
    by (simp add: p command_frame_demo)
  have 2: "checksum ''QStartNoAckMode'' = 0xb0" by (simp add: checksum_def)
  have 3: "printf_hex lower_digits 2 (0xb0) = ''b0''"
    by (simp add: printf_hex_def hex_of.simps lower_digits_def Let_def)
  have 4: "\<not> closes_with_checksum lower_digits ''$QStartNoAckMode#B0''"
    by (simp add: closes_with_checksum_def frame_payload_def 2 3)
  show ?thesis using 1 2 3 4 by (simp add: lower_digits_def)
qed

end
